theory Spec2Isabelle
  imports Complex_Main
begin

section \<open>Geometry\<close>

text \<open>
  The program computes with single-precision floats.  Coordinates, velocities and time
  steps are embedded as exact reals: sums, products and comparisons are those of the
  source, rounding is not modelled.  The counters \<open>score\<close> and \<open>lives\<close> are C++ \<open>int\<close>;
  they stay within a few hundred in any level instance and are embedded as \<open>int\<close>.
\<close>

type_synonym Vector2f = "real \<times> real"

text \<open>\<open>sf::FloatRect\<close>: top-left corner and size.\<close>

record FloatRect =
  position :: Vector2f
  rsize :: Vector2f

text \<open>
  \<open>sf::RectangleShape\<close>, reduced to the two attributes the game logic reads and writes.
  No shape is ever rotated, scaled or given an origin or an outline, so its global bounds
  are its position and size.
\<close>

record RectangleShape =
  shapePosition :: Vector2f
  shapeSize :: Vector2f

definition getPosition :: "RectangleShape \<Rightarrow> Vector2f" where
  "getPosition s = shapePosition s"

definition setPosition :: "Vector2f \<Rightarrow> RectangleShape \<Rightarrow> RectangleShape" where
  "setPosition v s = s\<lparr>shapePosition := v\<rparr>"

definition move :: "Vector2f \<Rightarrow> RectangleShape \<Rightarrow> RectangleShape" where
  "move d s = s\<lparr>shapePosition := (fst (shapePosition s) + fst d, snd (shapePosition s) + snd d)\<rparr>"

definition getGlobalBounds :: "RectangleShape \<Rightarrow> FloatRect" where
  "getGlobalBounds s = \<lparr>position = shapePosition s, rsize = shapeSize s\<rparr>"

text \<open>
  Modelled from the spec: \<open>sf::FloatRect::findIntersection\<close> is a function of the
  graphics library, not of this repository.  The spec describes the overlap test built on
  it as "true iff the rectangles' projections overlap on both axes with non-zero area"
  and "intersection-with-positive-area as collision"; with right = x + width and
  bottom = y + height.  Every size in the program is a positive constant.
\<close>

definition findIntersection :: "FloatRect \<Rightarrow> FloatRect \<Rightarrow> FloatRect option" where
  "findIntersection r1 r2 =
    (let interLeft = max (fst (position r1)) (fst (position r2));
         interTop = max (snd (position r1)) (snd (position r2));
         interRight = min (fst (position r1) + fst (rsize r1)) (fst (position r2) + fst (rsize r2));
         interBottom = min (snd (position r1) + snd (rsize r1)) (snd (position r2) + snd (rsize r2))
     in if interLeft < interRight \<and> interTop < interBottom
        then Some \<lparr>position = (interLeft, interTop),
                   rsize = (interRight - interLeft, interBottom - interTop)\<rparr>
        else None)"

definition checkCollision :: "FloatRect \<Rightarrow> FloatRect \<Rightarrow> bool" where
  "checkCollision rect1 rect2 = (findIntersection rect1 rect2 \<noteq> None)"

section \<open>Constants\<close>

definition GRAVITY :: real where "GRAVITY = 900"
definition PLAYER_JUMP_VELOCITY :: real where "PLAYER_JUMP_VELOCITY = - 500"
definition PLAYER_MOVE_SPEED :: real where "PLAYER_MOVE_SPEED = 200"
definition ENEMY_MOVE_SPEED :: real where "ENEMY_MOVE_SPEED = 80"
definition COLLISION_EPSILON :: real where "COLLISION_EPSILON = 1 / 10"

datatype GameState = Playing | GameOver

section \<open>Player\<close>

record Player =
  sprite :: RectangleShape
  velocity :: Vector2f
  onGround :: bool

text \<open>The constructor \<open>Player(startX, startY)\<close>; texture loading only affects drawing.\<close>

definition Player_new :: "real \<Rightarrow> real \<Rightarrow> Player" where
  "Player_new startX startY =
    \<lparr>sprite = \<lparr>shapePosition = (startX, startY), shapeSize = (40, 60)\<rparr>,
     velocity = (0, 0), onGround = False\<rparr>"

text \<open>Body of the first loop of \<open>Player::update\<close>: horizontal collision with one platform.\<close>

definition horizontalStep :: "RectangleShape \<Rightarrow> Player \<Rightarrow> Player" where
  "horizontalStep platform p =
    (if checkCollision (getGlobalBounds (sprite p)) (getGlobalBounds platform) then
       (let p1 =
          (if fst (velocity p) > 0 then
             p\<lparr>sprite := setPosition
                 (fst (position (getGlobalBounds platform))
                    - fst (rsize (getGlobalBounds (sprite p))) - COLLISION_EPSILON,
                  snd (getPosition (sprite p))) (sprite p)\<rparr>
           else if fst (velocity p) < 0 then
             p\<lparr>sprite := setPosition
                 (fst (position (getGlobalBounds platform))
                    + fst (rsize (getGlobalBounds platform)) + COLLISION_EPSILON,
                  snd (getPosition (sprite p))) (sprite p)\<rparr>
           else p)
        in p1\<lparr>velocity := (0, snd (velocity p1))\<rparr>)
     else p)"

fun horizontalLoop :: "RectangleShape list \<Rightarrow> Player \<Rightarrow> Player" where
  "horizontalLoop [] p = p"
| "horizontalLoop (platform # rest) p = horizontalLoop rest (horizontalStep platform p)"

text \<open>Body of the second loop of \<open>Player::update\<close>: vertical collision with one platform.\<close>

definition verticalStep :: "RectangleShape \<Rightarrow> Player \<Rightarrow> Player" where
  "verticalStep platform p =
    (if checkCollision (getGlobalBounds (sprite p)) (getGlobalBounds platform) then
       (if snd (velocity p) > 0 then
          p\<lparr>sprite := setPosition
              (fst (getPosition (sprite p)),
               snd (position (getGlobalBounds platform))
                 - snd (rsize (getGlobalBounds (sprite p)))) (sprite p),
            velocity := (fst (velocity p), 0),
            onGround := True\<rparr>
        else if snd (velocity p) < 0 then
          p\<lparr>sprite := setPosition
              (fst (getPosition (sprite p)),
               snd (position (getGlobalBounds platform))
                 + snd (rsize (getGlobalBounds platform)) + COLLISION_EPSILON) (sprite p),
            velocity := (fst (velocity p), 0)\<rparr>
        else p)
     else p)"

fun verticalLoop :: "RectangleShape list \<Rightarrow> Player \<Rightarrow> Player" where
  "verticalLoop [] p = p"
| "verticalLoop (platform # rest) p = verticalLoop rest (verticalStep platform p)"

text \<open>The two window-edge tests that end \<open>Player::update\<close>; the right edge is the literal 800.\<close>

definition clampToWindow :: "Player \<Rightarrow> Player" where
  "clampToWindow p =
    (let p1 = (if fst (getPosition (sprite p)) < 0
               then p\<lparr>sprite := setPosition (0, snd (getPosition (sprite p))) (sprite p),
                      velocity := (0, snd (velocity p))\<rparr>
               else p)
     in if fst (getPosition (sprite p1)) + fst (rsize (getGlobalBounds (sprite p1))) > 800
        then p1\<lparr>sprite := setPosition
                   (800 - fst (rsize (getGlobalBounds (sprite p1))),
                    snd (getPosition (sprite p1))) (sprite p1),
                velocity := (0, snd (velocity p1))\<rparr>
        else p1)"

text \<open>
  The state of \<open>Player::update\<close> when its second loop starts: gravity applied, horizontal
  move and horizontal resolution done, vertical move done, \<open>onGround\<close> reset.
\<close>

definition beforeVertical :: "real \<Rightarrow> RectangleShape list \<Rightarrow> Player \<Rightarrow> Player" where
  "beforeVertical deltaTime platforms p =
    (let p1 = p\<lparr>velocity := (fst (velocity p), snd (velocity p) + GRAVITY * deltaTime)\<rparr>;
         p2 = p1\<lparr>sprite := move (fst (velocity p1) * deltaTime, 0) (sprite p1)\<rparr>;
         p3 = horizontalLoop platforms p2;
         p4 = p3\<lparr>sprite := move (0, snd (velocity p3) * deltaTime) (sprite p3)\<rparr>
     in p4\<lparr>onGround := False\<rparr>)"

definition Player_update :: "real \<Rightarrow> RectangleShape list \<Rightarrow> Player \<Rightarrow> Player" where
  "Player_update deltaTime platforms p =
    clampToWindow (verticalLoop platforms (beforeVertical deltaTime platforms p))"

text \<open>The three keys polled by \<open>Player::handleInput\<close>.\<close>

record Keys =
  keyLeft :: bool
  keyRight :: bool
  keySpace :: bool

definition handleInput :: "Keys \<Rightarrow> Player \<Rightarrow> Player" where
  "handleInput k p =
    (let p0 = p\<lparr>velocity := (0, snd (velocity p))\<rparr>;
         p1 = (if keyLeft k then p0\<lparr>velocity := (- PLAYER_MOVE_SPEED, snd (velocity p0))\<rparr> else p0);
         p2 = (if keyRight k then p1\<lparr>velocity := (PLAYER_MOVE_SPEED, snd (velocity p1))\<rparr> else p1)
     in if keySpace k \<and> onGround p2
        then p2\<lparr>velocity := (fst (velocity p2), PLAYER_JUMP_VELOCITY), onGround := False\<rparr>
        else p2)"

section \<open>Enemy\<close>

record Enemy =
  esprite :: RectangleShape
  evelocity :: Vector2f
  leftBound :: real
  rightBound :: real

definition Enemy_new :: "real \<Rightarrow> real \<Rightarrow> real \<Rightarrow> real \<Rightarrow> Enemy" where
  "Enemy_new startX startY bound1 bound2 =
    \<lparr>esprite = \<lparr>shapePosition = (startX, startY), shapeSize = (40, 40)\<rparr>,
     evelocity = (ENEMY_MOVE_SPEED, 0),
     leftBound = min bound1 bound2,
     rightBound = max bound1 bound2\<rparr>"

definition Enemy_update :: "real \<Rightarrow> Enemy \<Rightarrow> Enemy" where
  "Enemy_update deltaTime e =
    (let s = move (fst (evelocity e) * deltaTime, 0) (esprite e)
     in if fst (getPosition s) \<le> leftBound e
           \<or> fst (getPosition s) + fst (rsize (getGlobalBounds s)) \<ge> rightBound e
        then
          (let v = (fst (evelocity e) * (- 1), snd (evelocity e))
           in if fst (getPosition s) \<le> leftBound e
              then e\<lparr>esprite := setPosition (leftBound e, snd (getPosition s)) s, evelocity := v\<rparr>
              else e\<lparr>esprite := setPosition
                        (rightBound e - fst (rsize (getGlobalBounds s)), snd (getPosition s)) s,
                     evelocity := v\<rparr>)
        else e\<lparr>esprite := s\<rparr>)"

section \<open>Coin\<close>

text \<open>
  \<open>Coin::update\<close> only cycles the sprite-sheet frame (\<open>currentFrame\<close>, \<open>textureRect\<close>) from
  a wall clock and the loaded texture; it reads and writes neither the position nor
  \<open>collected\<close>.  The record keeps the two fields the game logic uses.
\<close>

record Coin =
  csprite :: RectangleShape
  collected :: bool

definition Coin_new :: "real \<Rightarrow> real \<Rightarrow> Coin" where
  "Coin_new x y = \<lparr>csprite = \<lparr>shapePosition = (x, y), shapeSize = (30, 30)\<rparr>, collected = False\<rparr>"

section \<open>Game\<close>

text \<open>
  The members of \<open>Game\<close> that its logic reads and writes.  The window is represented by
  its size (whole pixels, kept as reals) and its open flag, the view by its centre and size.
\<close>

record Game =
  currentState :: GameState
  player :: Player
  platforms :: "RectangleShape list"
  enemies :: "Enemy list"
  coins :: "Coin list"
  score :: int
  lives :: int
  viewCenter :: Vector2f
  viewSize :: Vector2f
  windowSize :: Vector2f
  windowOpen :: bool

definition levelPlatforms :: "RectangleShape list" where
  "levelPlatforms =
    [\<lparr>shapePosition = (0, 500), shapeSize = (2000, 50)\<rparr>,
     \<lparr>shapePosition = (250, 400), shapeSize = (200, 30)\<rparr>,
     \<lparr>shapePosition = (500, 300), shapeSize = (150, 30)\<rparr>,
     \<lparr>shapePosition = (800, 450), shapeSize = (300, 30)\<rparr>,
     \<lparr>shapePosition = (1100, 350), shapeSize = (100, 30)\<rparr>]"

definition levelEnemies :: "Enemy list" where
  "levelEnemies =
    [Enemy_new 300 460 250 450, Enemy_new 600 260 550 700, Enemy_new 900 410 850 1000]"

definition levelCoins :: "Coin list" where
  "levelCoins =
    [Coin_new 270 360, Coin_new 550 260, Coin_new 600 260, Coin_new 850 410, Coin_new 1120 310]"

definition initLevel :: "Game \<Rightarrow> Game" where
  "initLevel g =
    g\<lparr>platforms := levelPlatforms,
      enemies := levelEnemies,
      coins := levelCoins,
      score := 0,
      lives := 3,
      player := (player g)\<lparr>sprite := setPosition (100, 400) (sprite (player g)),
                           velocity := (0, 0), onGround := False\<rparr>,
      currentState := Playing\<rparr>"

text \<open>The constructor \<open>Game()\<close>: an 800 by 600 window, the view centred on it.\<close>

definition Game_new :: Game where
  "Game_new =
    initLevel
      \<lparr>currentState = Playing, player = Player_new 100 400, platforms = [], enemies = [],
       coins = [], score = 0, lives = 3, viewCenter = (400, 300), viewSize = (800, 600),
       windowSize = (800, 600), windowOpen = True\<rparr>"

text \<open>Respawn: the player is put back at the start position with zero velocity.\<close>

definition respawn :: "Player \<Rightarrow> Player" where
  "respawn p = p\<lparr>sprite := setPosition (100, 400) (sprite p), velocity := (0, 0)\<rparr>"

text \<open>
  Body of the enemy loop of \<open>Game::update\<close>: the enemy patrols, then a contact with the
  player is a stomp or a damage.  The updated enemy is returned beside the game.
\<close>

definition enemyStep :: "real \<Rightarrow> Enemy \<Rightarrow> Game \<Rightarrow> Enemy \<times> Game" where
  "enemyStep deltaTime enemy0 g =
    (let enemy = Enemy_update deltaTime enemy0;
         pb = getGlobalBounds (sprite (player g));
         eb = getGlobalBounds (esprite enemy)
     in if checkCollision pb eb then
          (if snd (velocity (player g)) > 0
              \<and> snd (position pb) + snd (rsize pb) < snd (position eb) + 20
           then
             (enemy\<lparr>esprite := setPosition (- 1000, - 1000) (esprite enemy)\<rparr>,
              g\<lparr>player := (player g)\<lparr>velocity :=
                             (fst (velocity (player g)), PLAYER_JUMP_VELOCITY / 2)\<rparr>,
                score := score g + 100\<rparr>)
           else
             (let g1 = g\<lparr>lives := lives g - 1, player := respawn (player g)\<rparr>
              in (enemy, if lives g1 \<le> 0 then g1\<lparr>currentState := GameOver\<rparr> else g1)))
        else (enemy, g))"

fun enemyLoop :: "real \<Rightarrow> Enemy list \<Rightarrow> Game \<Rightarrow> Enemy list \<times> Game" where
  "enemyLoop deltaTime [] g = ([], g)"
| "enemyLoop deltaTime (enemy # rest) g =
    (let (enemy', g1) = enemyStep deltaTime enemy g;
         (rest', g2) = enemyLoop deltaTime rest g1
     in (enemy' # rest', g2))"

text \<open>Body of the coin loop of \<open>Game::update\<close>.\<close>

definition coinStep :: "Coin \<Rightarrow> Game \<Rightarrow> Coin \<times> Game" where
  "coinStep coin g =
    (if \<not> collected coin
        \<and> checkCollision (getGlobalBounds (sprite (player g))) (getGlobalBounds (csprite coin))
     then (coin\<lparr>collected := True\<rparr>, g\<lparr>score := score g + 10\<rparr>)
     else (coin, g))"

fun coinLoop :: "Coin list \<Rightarrow> Game \<Rightarrow> Coin list \<times> Game" where
  "coinLoop [] g = ([], g)"
| "coinLoop (coin # rest) g =
    (let (coin', g1) = coinStep coin g;
         (rest', g2) = coinLoop rest g1
     in (coin' # rest', g2))"

text \<open>The view follows the player and is clamped to the level, whose width is the literal 2000.\<close>

definition updateView :: "Game \<Rightarrow> Game" where
  "updateView g =
    (let cx = fst (getPosition (sprite (player g)))
                + fst (rsize (getGlobalBounds (sprite (player g)))) / 2;
         minViewX = fst (windowSize g) / 2;
         maxViewX = 2000 - fst (windowSize g) / 2
     in g\<lparr>viewCenter :=
           (if cx < minViewX then minViewX else if cx > maxViewX then maxViewX else cx,
            snd (viewCenter g))\<rparr>)"

text \<open>\<open>Game::update\<close> from the enemy loop on.\<close>

definition afterFallCheck :: "real \<Rightarrow> Game \<Rightarrow> Game" where
  "afterFallCheck deltaTime g =
    (let (es, g1) = enemyLoop deltaTime (enemies g) g;
         g2 = g1\<lparr>enemies := es\<rparr>;
         (cs, g3) = coinLoop (coins g2) g2;
         g4 = g3\<lparr>coins := cs\<rparr>
     in updateView g4)"

definition Game_update :: "real \<Rightarrow> Game \<Rightarrow> Game" where
  "Game_update deltaTime g =
    (let g1 = g\<lparr>player := Player_update deltaTime (platforms g) (player g)\<rparr>
     in if snd (getPosition (sprite (player g1))) > 700 then
          (let g2 = g1\<lparr>lives := lives g1 - 1\<rparr>
           in if lives g2 \<le> 0 then g2\<lparr>currentState := GameOver\<rparr>
              else afterFallCheck deltaTime (g2\<lparr>player := respawn (player g2)\<rparr>))
        else afterFallCheck deltaTime g1)"

section \<open>Events and the frame loop\<close>

datatype Key = KeyR | KeyOther

datatype Event = Closed | Resized nat nat | KeyPressed Key | OtherEvent

text \<open>Body of the event loop of \<open>Game::handleEvents\<close>.\<close>

definition handleEvent :: "Event \<Rightarrow> Game \<Rightarrow> Game" where
  "handleEvent ev g =
    (let g1 = (if ev = Closed then g\<lparr>windowOpen := False\<rparr> else g);
         g2 = (case ev of
                 Resized w h \<Rightarrow> g1\<lparr>viewSize := (real w, real h),
                                  viewCenter := (real w / 2, real h / 2),
                                  windowSize := (real w, real h)\<rparr>
               | _ \<Rightarrow> g1)
     in if currentState g2 = GameOver \<and> ev = KeyPressed KeyR then initLevel g2 else g2)"

fun eventLoop :: "Event list \<Rightarrow> Game \<Rightarrow> Game" where
  "eventLoop [] g = g"
| "eventLoop (ev # rest) g = eventLoop rest (handleEvent ev g)"

text \<open>What one iteration of the frame loop receives from outside.\<close>

record Frame =
  events :: "Event list"
  keys :: Keys
  deltaTime :: real

definition handleEvents :: "Frame \<Rightarrow> Game \<Rightarrow> Game" where
  "handleEvents fr g =
    (let g1 = eventLoop (events fr) g
     in if currentState g1 = Playing then g1\<lparr>player := handleInput (keys fr) (player g1)\<rparr>
        else g1)"

text \<open>One iteration of the loop of \<open>Game::run\<close>, without the drawing.\<close>

definition frameStep :: "Frame \<Rightarrow> Game \<Rightarrow> Game" where
  "frameStep fr g =
    (let g1 = handleEvents fr g
     in if currentState g1 = Playing then Game_update (deltaTime fr) g1 else g1)"

text \<open>\<open>Game::run\<close> on a finite sequence of frames: the loop ends when the window is closed.\<close>

fun run :: "Frame list \<Rightarrow> Game \<Rightarrow> Game" where
  "run [] g = g"
| "run (fr # rest) g = (if windowOpen g then run rest (frameStep fr g) else g)"

text \<open>
  The shapes \<open>Game::render\<close> submits for drawing, in order: platforms, coins not yet
  collected (\<open>Coin::draw\<close>), every enemy (\<open>Enemy::draw\<close>), the player.
\<close>

definition render :: "Game \<Rightarrow> RectangleShape list" where
  "render g =
    platforms g @ map csprite (filter (\<lambda>c. \<not> collected c) (coins g))
      @ map esprite (enemies g) @ [sprite (player g)]"

section \<open>Notions used in the statements\<close>

definition bottomEdge :: "RectangleShape \<Rightarrow> real" where
  "bottomEdge s = snd (position (getGlobalBounds s)) + snd (rsize (getGlobalBounds s))"

definition topEdge :: "RectangleShape \<Rightarrow> real" where
  "topEdge s = snd (position (getGlobalBounds s))"

text \<open>The player's bounds overlap a platform.\<close>

definition overlaps :: "Player \<Rightarrow> RectangleShape \<Rightarrow> bool" where
  "overlaps p platform = checkCollision (getGlobalBounds (sprite p)) (getGlobalBounds platform)"

text \<open>The player's bounds overlap an enemy, a coin.\<close>

definition meets :: "Game \<Rightarrow> Enemy \<Rightarrow> bool" where
  "meets g e = checkCollision (getGlobalBounds (sprite (player g))) (getGlobalBounds (esprite e))"

definition touches :: "Game \<Rightarrow> Coin \<Rightarrow> bool" where
  "touches g c = checkCollision (getGlobalBounds (sprite (player g))) (getGlobalBounds (csprite c))"

text \<open>The test that makes a contact a stomp.\<close>

definition stompTest :: "Game \<Rightarrow> Enemy \<Rightarrow> bool" where
  "stompTest g e =
    (snd (velocity (player g)) > 0 \<and> bottomEdge (sprite (player g)) < topEdge (esprite e) + 20)"

text \<open>
  \<open>Game::update\<close> returns before its loops: the player fell below 700 on the last life.
\<close>

definition fellToGameOver :: "real \<Rightarrow> Game \<Rightarrow> bool" where
  "fellToGameOver dt g =
    (snd (getPosition (sprite (Player_update dt (platforms g) (player g)))) > 700
     \<and> lives g - 1 \<le> 0)"

text \<open>
  A frame restarts the level when the game is over and the frame brings the key R.  A level
  instance is a run of frames none of which restarts.
\<close>

definition restarts :: "Frame \<Rightarrow> Game \<Rightarrow> bool" where
  "restarts fr g = (currentState g = GameOver \<and> KeyPressed KeyR \<in> set (events fr))"

fun noRestart :: "Frame list \<Rightarrow> Game \<Rightarrow> bool" where
  "noRestart [] g = True"
| "noRestart (fr # rest) g =
    (windowOpen g \<longrightarrow> \<not> restarts fr g \<and> noRestart rest (frameStep fr g))"

text \<open>
  What the constructor and the level data establish and every frame keeps: each enemy's
  patrol interval starts right of the respawn box (whose right edge is 100 + 40) and is at
  least as wide as the enemy, the player is 40 by 60, and there is a life left exactly
  while the game is played.
\<close>

definition farEnemy :: "Enemy \<Rightarrow> bool" where
  "farEnemy e = (140 \<le> leftBound e \<and> fst (shapeSize (esprite e)) \<le> rightBound e - leftBound e)"

definition wellFormed :: "Game \<Rightarrow> bool" where
  "wellFormed g =
    ((\<forall>e \<in> set (enemies g). farEnemy e)
     \<and> shapeSize (sprite (player g)) = (40, 60)
     \<and> (currentState g = Playing \<and> 1 \<le> lives g \<or> currentState g = GameOver \<and> lives g = 0))"

text \<open>Two games agree on everything but the window and the view.\<close>

definition sameGame :: "Game \<Rightarrow> Game \<Rightarrow> bool" where
  "sameGame g g' =
    (currentState g = currentState g' \<and> player g = player g' \<and> platforms g = platforms g'
     \<and> enemies g = enemies g' \<and> coins g = coins g' \<and> score g = score g' \<and> lives g = lives g')"

text \<open>
  The game when the coin loop of \<open>Game::update\<close> starts, provided the update did not
  return before: player moved, fall handled, enemies patrolled and contacts settled.
\<close>

definition beforeCoins :: "real \<Rightarrow> Game \<Rightarrow> Game" where
  "beforeCoins dt g =
    (let g1 = g\<lparr>player := Player_update dt (platforms g) (player g)\<rparr>;
         g2 = (if snd (getPosition (sprite (player g1))) > 700
               then g1\<lparr>lives := lives g1 - 1, player := respawn (player g1)\<rparr> else g1);
         r = enemyLoop dt (enemies g2) g2
     in (snd r)\<lparr>enemies := fst r\<rparr>)"

text \<open>
  What holds between two iterations of the enemy loop: a life is left while the game is
  played, and once the last life is lost the player is at the respawn position.
\<close>

definition loopInv :: "Game \<Rightarrow> bool" where
  "loopInv g =
    (shapeSize (sprite (player g)) = (40, 60)
     \<and> (currentState g = Playing \<and> 1 \<le> lives g
        \<or> currentState g = GameOver \<and> lives g = 0 \<and> getPosition (sprite (player g)) = (100, 400)))"

text \<open>
  The game when the enemy loop of \<open>Game::update\<close> starts, provided the update did not return
  before: player moved, and respawned with a life less after a fall.
\<close>

definition afterFall :: "real \<Rightarrow> Game \<Rightarrow> Game" where
  "afterFall dt g =
    (let g1 = g\<lparr>player := Player_update dt (platforms g) (player g)\<rparr>
     in if snd (getPosition (sprite (player g1))) > 700
        then g1\<lparr>lives := lives g1 - 1, player := respawn (player g1)\<rparr> else g1)"

text \<open>
  The game when the enemy loop, run on the list \<open>es\<close> from the game \<open>g\<close>, reaches the enemy of
  index \<open>i\<close>; and the same within \<open>Game::update\<close>.
\<close>

fun loopState :: "real \<Rightarrow> Enemy list \<Rightarrow> Game \<Rightarrow> nat \<Rightarrow> Game" where
  "loopState dt es g 0 = g"
| "loopState dt es g (Suc i) = snd (enemyStep dt (es ! i) (loopState dt es g i))"

fun reached :: "real \<Rightarrow> Game \<Rightarrow> nat \<Rightarrow> Game" where
  "reached dt g 0 = afterFall dt g"
| "reached dt g (Suc i) = snd (enemyStep dt (enemies g ! i) (reached dt g i))"

text \<open>
  Enemy \<open>i\<close> after its patrol step of the frame; whether the frame stomps it, whether it
  damages the player.
\<close>

definition patrolled :: "real \<Rightarrow> Game \<Rightarrow> nat \<Rightarrow> Enemy" where
  "patrolled dt g i = Enemy_update dt (enemies g ! i)"

definition stompedAt :: "real \<Rightarrow> Game \<Rightarrow> nat \<Rightarrow> bool" where
  "stompedAt dt g i =
    (meets (reached dt g i) (patrolled dt g i) \<and> stompTest (reached dt g i) (patrolled dt g i))"

definition damagedAt :: "real \<Rightarrow> Game \<Rightarrow> nat \<Rightarrow> bool" where
  "damagedAt dt g i =
    (meets (reached dt g i) (patrolled dt g i) \<and> \<not> stompTest (reached dt g i) (patrolled dt g i))"

text \<open>What one iteration of the vertical loop of \<open>Player::update\<close> can turn the player into.\<close>

definition landed :: "RectangleShape \<Rightarrow> Player \<Rightarrow> Player" where
  "landed pl p =
    p\<lparr>sprite := setPosition (fst (getPosition (sprite p)),
         topEdge pl - snd (shapeSize (sprite p))) (sprite p),
      velocity := (fst (velocity p), 0), onGround := True\<rparr>"

definition bumped :: "RectangleShape \<Rightarrow> Player \<Rightarrow> Player" where
  "bumped pl p =
    p\<lparr>sprite := setPosition (fst (getPosition (sprite p)),
         snd (shapePosition pl) + snd (shapeSize pl) + COLLISION_EPSILON) (sprite p),
      velocity := (fst (velocity p), 0)\<rparr>"

text \<open>
  The vertical position less the height a jump at the present upward speed can still gain
  under gravity, the square of the speed over 2 * 900.
\<close>

definition headroom :: "Player \<Rightarrow> real" where
  "headroom p = snd (getPosition (sprite p)) - (snd (velocity p))\<^sup>2 / 1800"

text \<open>
  What every frame keeps of the player: 40 by 60, headroom at least 100, and on the ground
  only at rest on a platform of the level (the highest is at 300, the player then at 240).
\<close>

definition steady :: "Player \<Rightarrow> bool" where
  "steady p =
    (shapeSize (sprite p) = (40, 60) \<and> 100 \<le> headroom p
     \<and> (onGround p \<longrightarrow> snd (velocity p) = 0 \<and> 240 \<le> snd (getPosition (sprite p))))"

text \<open>
  What every frame keeps of an enemy: 40 by 40, its patrol interval as \<open>farEnemy\<close> says, at
  (-1000, -1000) or within the interval, and at vertical position -1000 or at least 260.
\<close>

definition stationed :: "Enemy \<Rightarrow> bool" where
  "stationed e =
    (shapeSize (esprite e) = (40, 40) \<and> farEnemy e
     \<and> (getPosition (esprite e) = (- 1000, - 1000)
        \<or> leftBound e \<le> fst (getPosition (esprite e))
          \<and> fst (getPosition (esprite e)) \<le> rightBound e - fst (shapeSize (esprite e)))
     \<and> (snd (getPosition (esprite e)) = - 1000 \<or> 260 \<le> snd (getPosition (esprite e))))"

definition sound :: "Game \<Rightarrow> bool" where
  "sound g =
    (wellFormed g \<and> platforms g = levelPlatforms \<and> steady (player g)
     \<and> (\<forall>e \<in> set (enemies g). stationed e))"

text \<open>
  Rounding to single precision: to the nearest number with a significand of 24 bits, ties
  to the even significand, steps of 2 to the -149 below the normal range.  The significand
  is found by halving or doubling the magnitude; 300 steps cover every exponent of the
  format.  Magnitudes beyond the format's range are rounded in the same way, infinities are
  not produced.
\<close>

fun normalise :: "nat \<Rightarrow> real \<Rightarrow> int \<Rightarrow> real \<times> int" where
  "normalise 0 m e = (m, e)"
| "normalise (Suc n) m e =
    (if 16777216 \<le> m then normalise n (m / 2) (e + 1)
     else if m < 8388608 \<and> - 149 < e then normalise n (m * 2) (e - 1)
     else (m, e))"

definition roundEven :: "real \<Rightarrow> int" where
  "roundEven x =
    (let f = \<lfloor>x\<rfloor>
     in if x - of_int f < 1 / 2 then f
        else if 1 / 2 < x - of_int f then f + 1
        else if even f then f else f + 1)"

definition float32 :: "real \<Rightarrow> real" where
  "float32 x =
    (let (m, e) = normalise 300 \<bar>x\<bar> 0;
         r = of_int (roundEven m)
     in sgn x * (if 0 \<le> e then r * 2 ^ nat e else r / 2 ^ nat (- e)))"

section \<open>Scenes\<close>




text \<open>The level as built, the player falling onto the second enemy.\<close>

definition stompScene :: Game where
  "stompScene =
    Game_new\<lparr>player := \<lparr>sprite = \<lparr>shapePosition = (600, 190), shapeSize = (40, 60)\<rparr>,
                         velocity = (0, 100), onGround = False\<rparr>\<rparr>"

text \<open>The level as built, one life left, the player standing in the first enemy's way.\<close>

definition lastLife :: Game where
  "lastLife =
    Game_new\<lparr>lives := 1,
             player := \<lparr>sprite = \<lparr>shapePosition = (290, 440), shapeSize = (40, 60)\<rparr>,
                         velocity = (0, 0), onGround = True\<rparr>\<rparr>"

text \<open>The player in the air, moving right, 10 units before the window's right edge.\<close>

definition glider :: Player where
  "glider = \<lparr>sprite = \<lparr>shapePosition = (750, 300), shapeSize = (40, 60)\<rparr>,
             velocity = (200, 0), onGround = False\<rparr>"

text \<open>A frame of a tenth of a second with no event and no key held, and one with the key R.\<close>

definition idleFrame :: Frame where
  "idleFrame = \<lparr>events = [], keys = \<lparr>keyLeft = False, keyRight = False, keySpace = False\<rparr>,
                deltaTime = 1 / 10\<rparr>"

definition restartFrame :: Frame where
  "restartFrame = idleFrame\<lparr>events := [KeyPressed KeyR]\<rparr>"

text \<open>A frame after a stall of two seconds: the player drops past the ground in one step.\<close>

definition longFrame :: Frame where
  "longFrame = idleFrame\<lparr>deltaTime := 2\<rparr>"

text \<open>The stomp scene when the enemy loop starts, and one frame later.\<close>

definition stompContact :: Game where
  "stompContact =
    stompScene\<lparr>player := Player_update (1 / 10) (platforms stompScene) (player stompScene)\<rparr>"

definition afterStomp :: Game where
  "afterStomp = frameStep idleFrame stompScene"

text \<open>A game that is over, with a score, a coin collected and an enemy stomped.\<close>

definition gameOverScene :: Game where
  "gameOverScene = afterStomp\<lparr>currentState := GameOver, lives := 0\<rparr>"

text \<open>The frame with the key R while the right arrow is held.\<close>

definition heldRight :: Frame where
  "heldRight = restartFrame\<lparr>keys := \<lparr>keyLeft = False, keyRight = True, keySpace = False\<rparr>\<rparr>"

text \<open>
  Fourteen frames from the constructor's game that end with the second enemy stomped: the
  player settles on the ground, jumps onto the first platform, walks, jumps onto the
  second platform, jumps again and comes down on the enemy.  The game they end in.
\<close>

definition frameOf :: "real \<Rightarrow> bool \<Rightarrow> bool \<Rightarrow> Frame" where
  "frameOf dt right space =
    \<lparr>events = [], keys = \<lparr>keyLeft = False, keyRight = right, keySpace = space\<rparr>, deltaTime = dt\<rparr>"

definition stompRun :: "Frame list" where
  "stompRun =
    [frameOf (3 / 10) False False,
     frameOf (7 / 50) True True, frameOf (7 / 50) True False, frameOf (7 / 50) True False,
     frameOf (1 / 4) True False, frameOf (3 / 10) True False, frameOf (3 / 10) True False,
     frameOf (7 / 50) True True, frameOf (7 / 50) True False, frameOf (7 / 50) True False,
     frameOf (7 / 50) True False, frameOf (7 / 50) True False,
     frameOf (1 / 10) True True, frameOf (47 / 100) True False]"

definition stompedGame :: Game where
  "stompedGame =
    \<lparr>currentState = Playing,
     player = \<lparr>sprite = \<lparr>shapePosition = (608, 20511 / 100), shapeSize = (40, 60)\<rparr>,
                velocity = (200, - 250), onGround = False\<rparr>,
     platforms = levelPlatforms,
     enemies =
       [\<lparr>esprite = \<lparr>shapePosition = (1542 / 5, 460), shapeSize = (40, 40)\<rparr>,
          evelocity = (- 80, 0), leftBound = 250, rightBound = 450\<rparr>,
        \<lparr>esprite = \<lparr>shapePosition = (- 1000, - 1000), shapeSize = (40, 40)\<rparr>,
          evelocity = (80, 0), leftBound = 550, rightBound = 700\<rparr>,
        \<lparr>esprite = \<lparr>shapePosition = (4438 / 5, 410), shapeSize = (40, 40)\<rparr>,
          evelocity = (80, 0), leftBound = 850, rightBound = 1000\<rparr>],
     coins =
       [(Coin_new 270 360)\<lparr>collected := True\<rparr>, Coin_new 550 260,
        (Coin_new 600 260)\<lparr>collected := True\<rparr>, Coin_new 850 410, Coin_new 1120 310],
     score = 120, lives = 3, viewCenter = (628, 300), viewSize = (800, 600),
     windowSize = (800, 600), windowOpen = True\<rparr>"

section \<open>Landing\<close>

lemma verticalStep_miss: "\<not> overlaps p pl \<Longrightarrow> verticalStep pl p = p"
  by (simp add: verticalStep_def overlaps_def)

lemma verticalStep_rest: "snd (velocity p) = 0 \<Longrightarrow> verticalStep pl p = p"
  by (simp add: verticalStep_def)

lemma verticalLoop_rest: "snd (velocity p) = 0 \<Longrightarrow> verticalLoop ps p = p"
  by (induction ps arbitrary: p) (simp_all add: verticalStep_rest)

lemma verticalLoop_miss: "\<forall>pl \<in> set ps. \<not> overlaps p pl \<Longrightarrow> verticalLoop ps p = p"
  by (induction ps) (simp_all add: verticalStep_miss)

lemma verticalStep_land:
  "overlaps p pl \<Longrightarrow> snd (velocity p) > 0 \<Longrightarrow>
   verticalStep pl p =
     p\<lparr>sprite := setPosition (fst (getPosition (sprite p)),
          topEdge pl - snd (shapeSize (sprite p))) (sprite p),
       velocity := (fst (velocity p), 0), onGround := True\<rparr>"
  by (simp add: verticalStep_def overlaps_def topEdge_def getGlobalBounds_def)

text \<open>A falling player is put on the first platform of the list that it overlaps.\<close>

lemma verticalLoop_land:
  "snd (velocity p) > 0 \<Longrightarrow> find (overlaps p) ps = Some pl \<Longrightarrow>
   verticalLoop ps p =
     p\<lparr>sprite := setPosition (fst (getPosition (sprite p)),
          topEdge pl - snd (shapeSize (sprite p))) (sprite p),
       velocity := (fst (velocity p), 0), onGround := True\<rparr>"
proof (induction ps)
  case Nil
  then show ?case by simp
next
  case (Cons a ps)
  show ?case
  proof (cases "overlaps p a")
    case True
    with Cons.prems have "a = pl" by simp
    with True Cons.prems show ?thesis
      by (simp add: verticalStep_land verticalLoop_rest)
  next
    case False
    with Cons show ?thesis by (simp add: verticalStep_miss)
  qed
qed

lemma clampToWindow_keeps:
  "snd (getPosition (sprite (clampToWindow p))) = snd (getPosition (sprite p))"
  "shapeSize (sprite (clampToWindow p)) = shapeSize (sprite p)"
  "snd (velocity (clampToWindow p)) = snd (velocity p)"
  "onGround (clampToWindow p) = onGround p"
  by (simp_all add: clampToWindow_def Let_def getPosition_def setPosition_def)




text \<open>
  Where the difference is not exact the bottom edge misses the top edge: for a platform
  whose top is the single-precision number nearest to a tenth and a player 60 high, the
  program puts the player at the rounded difference and adds up a bottom edge of
  13107 / 131072, below the platform's top.  For the five platforms of the level and the
  player's height the difference is exact.
\<close>

lemma landing_rounds:
  "float32 (1 / 10) = 13421773 / 134217728
   \<and> float32 (float32 (1 / 10) - 60) \<noteq> float32 (1 / 10) - 60
   \<and> float32 (float32 (float32 (1 / 10) - 60) + 60) = 13107 / 131072
   \<and> float32 (float32 (float32 (1 / 10) - 60) + 60) \<noteq> float32 (1 / 10)"
  by code_simp

lemma level_landings_exact:
  "list_all (\<lambda>pl. float32 (topEdge pl - 60) = topEdge pl - 60 \<and> float32 (topEdge pl) = topEdge pl)
     levelPlatforms"
  by code_simp


section \<open>Resting on the ground\<close>

lemma verticalStep_grounded:
  "(onGround p \<longrightarrow> snd (velocity p) = 0) \<Longrightarrow>
   (onGround (verticalStep pl p) \<longrightarrow> snd (velocity (verticalStep pl p)) = 0)"
  by (simp add: verticalStep_def)

lemma verticalLoop_grounded:
  "(onGround p \<longrightarrow> snd (velocity p) = 0) \<Longrightarrow>
   (onGround (verticalLoop ps p) \<longrightarrow> snd (velocity (verticalLoop ps p)) = 0)"
proof (induction ps arbitrary: p)
  case Nil
  then show ?case by simp
next
  case (Cons a ps)
  from Cons.prems have "onGround (verticalStep a p) \<longrightarrow> snd (velocity (verticalStep a p)) = 0"
    by (rule verticalStep_grounded)
  then show ?case using Cons.IH by simp
qed

lemma beforeVertical_air: "\<not> onGround (beforeVertical dt ps p)"
  by (simp add: beforeVertical_def Let_def)

lemma verticalStep_rising:
  "snd (velocity p) \<le> 0 \<Longrightarrow>
   snd (velocity (verticalStep pl p)) \<le> 0 \<and> onGround (verticalStep pl p) = onGround p"
  by (simp add: verticalStep_def)

lemma verticalLoop_rising:
  "snd (velocity p) \<le> 0 \<Longrightarrow> onGround (verticalLoop ps p) = onGround p"
  by (induction ps arbitrary: p) (simp_all add: verticalStep_rising)

text \<open>
  C10.  After \<open>Player::update\<close>, \<open>onGround\<close> implies that the vertical velocity is 0; and
  \<open>onGround\<close> holds exactly when the player entered the vertical resolution falling and
  overlapping a platform, that is, when a landing took place.
\<close>

theorem onGround_implies_resting:
  "(onGround (Player_update dt ps p) \<longrightarrow> snd (velocity (Player_update dt ps p)) = 0)
   \<and> (onGround (Player_update dt ps p) \<longleftrightarrow>
        snd (velocity (beforeVertical dt ps p)) > 0
        \<and> (\<exists>pl \<in> set ps. overlaps (beforeVertical dt ps p) pl))"
proof -
  define q where "q = beforeVertical dt ps p"
  have air: "\<not> onGround q" by (simp add: q_def beforeVertical_air)
  have U: "Player_update dt ps p = clampToWindow (verticalLoop ps q)"
    by (simp add: Player_update_def q_def)
  have 1: "onGround (verticalLoop ps q) \<longrightarrow> snd (velocity (verticalLoop ps q)) = 0"
    using air by (intro verticalLoop_grounded) simp
  have 2: "onGround (verticalLoop ps q) \<longleftrightarrow>
           snd (velocity q) > 0 \<and> (\<exists>pl \<in> set ps. overlaps q pl)"
  proof (cases "snd (velocity q) > 0")
    case False
    then have "onGround (verticalLoop ps q) = onGround q" by (intro verticalLoop_rising) simp
    with air False show ?thesis by simp
  next
    case True
    show ?thesis
    proof (cases "\<exists>pl \<in> set ps. overlaps q pl")
      case False
      then have "verticalLoop ps q = q" by (intro verticalLoop_miss) simp
      with air False show ?thesis by simp
    next
      case ex: True
      then obtain pl where "find (overlaps q) ps = Some pl"
        by (cases "find (overlaps q) ps") (auto simp: find_None_iff)
      with True have "onGround (verticalLoop ps q)" by (simp add: verticalLoop_land)
      with True ex show ?thesis by simp
    qed
  qed
  show ?thesis using 1 2 by (simp add: U clampToWindow_keeps q_def)
qed

theorem onGround_implies_resting_witness:
  "onGround (Player_update (1 / 10) levelPlatforms (player lastLife))
   \<and> snd (velocity (Player_update (1 / 10) levelPlatforms (player lastLife))) = 0"
proof -
  have h: "onGround (Player_update (1 / 10) levelPlatforms (player lastLife))"
    by code_simp
  with onGround_implies_resting[of "1 / 10" levelPlatforms "player lastLife"]
  show ?thesis by blast
qed

section \<open>The clamp at the window edge\<close>

lemma clampToWindow_right:
  "fst (getPosition (sprite (clampToWindow p))) + fst (shapeSize (sprite (clampToWindow p))) \<le> 800"
  by (simp add: clampToWindow_def Let_def getPosition_def setPosition_def getGlobalBounds_def)

text \<open>
  C8.  The claim asks for a clamp to the world, 2000 wide; \<open>Player::update\<close> clamps to the
  literal 800.  After every update the player's right edge is at most 800; a player in the
  air at x = 750 moving right at 200 would reach 770 in a tenth of a second, far from the
  world's right edge, and is put back at 760 with horizontal velocity 0.
\<close>

theorem player_clamped_at_window_width:
  "fst (getPosition (sprite (Player_update dt ps p)))
     + fst (shapeSize (sprite (Player_update dt ps p))) \<le> 800
   \<and> fst (getPosition (sprite (beforeVertical (1 / 10) levelPlatforms glider))) = 770
   \<and> fst (velocity (beforeVertical (1 / 10) levelPlatforms glider)) = 200
   \<and> fst (getPosition (sprite (Player_update (1 / 10) levelPlatforms glider))) = 760
   \<and> fst (velocity (Player_update (1 / 10) levelPlatforms glider)) = 0"
proof -
  have "fst (getPosition (sprite (beforeVertical (1 / 10) levelPlatforms glider))) = 770
   \<and> fst (velocity (beforeVertical (1 / 10) levelPlatforms glider)) = 200
   \<and> fst (getPosition (sprite (Player_update (1 / 10) levelPlatforms glider))) = 760
   \<and> fst (velocity (Player_update (1 / 10) levelPlatforms glider)) = 0"
    by code_simp
  then show ?thesis
    by (simp add: Player_update_def clampToWindow_right)
qed

section \<open>Damage on the last life\<close>

text \<open>
  C5.  The claim leaves the player where it is when the last life is lost to an enemy, as
  the fall branch of \<open>Game::update\<close> does by returning before the respawn.  The damage
  branch respawns first and does not return: with one life left and the first enemy
  walking into the standing player, the update ends with no life, the game over, the
  player at (100, 400) instead of (290, 440), and the later enemies moved all the same.
\<close>

theorem last_life_damage_respawns:
  "lives lastLife = 1
   \<and> getPosition (sprite (Player_update (1 / 10) (platforms lastLife) (player lastLife))) = (290, 440)
   \<and> lives (Game_update (1 / 10) lastLife) = 0
   \<and> currentState (Game_update (1 / 10) lastLife) = GameOver
   \<and> getPosition (sprite (player (Game_update (1 / 10) lastLife))) = (100, 400)
   \<and> map (\<lambda>e. getPosition (esprite e)) (enemies lastLife) = [(300, 460), (600, 260), (900, 410)]
   \<and> map (\<lambda>e. getPosition (esprite e)) (enemies (Game_update (1 / 10) lastLife))
       = [(308, 460), (608, 260), (908, 410)]"
  by code_simp

section \<open>Events and restart\<close>

lemma sameGame_refl: "sameGame g g"
  by (simp add: sameGame_def)

lemma sameGame_trans: "sameGame a b \<Longrightarrow> sameGame b c \<Longrightarrow> sameGame a c"
  by (simp add: sameGame_def)

lemma handleEvent_same:
  "\<not> (currentState g = GameOver \<and> ev = KeyPressed KeyR) \<Longrightarrow> sameGame (handleEvent ev g) g"
  by (cases ev) (auto simp: handleEvent_def sameGame_def Let_def)

lemma eventLoop_same:
  "currentState g = GameOver \<longrightarrow> KeyPressed KeyR \<notin> set evs \<Longrightarrow> sameGame (eventLoop evs g) g"
proof (induction evs arbitrary: g)
  case Nil
  then show ?case by (simp add: sameGame_refl)
next
  case (Cons ev evs)
  from Cons.prems have s: "sameGame (handleEvent ev g) g"
    by (intro handleEvent_same) auto
  then have "currentState (handleEvent ev g) = currentState g" by (simp add: sameGame_def)
  with Cons.prems have "sameGame (eventLoop evs (handleEvent ev g)) (handleEvent ev g)"
    by (intro Cons.IH) auto
  with s show ?case by (auto intro: sameGame_trans)
qed

lemma initLevel_same: "player g = player g' \<Longrightarrow> sameGame (initLevel g) (initLevel g')"
  by (simp add: initLevel_def sameGame_def)

lemma initLevel_Playing: "currentState (initLevel g) = Playing"
  by (simp add: initLevel_def)

lemma eventLoop_restart:
  "currentState g = GameOver \<Longrightarrow> KeyPressed KeyR \<in> set evs \<Longrightarrow>
   sameGame (eventLoop evs g) (initLevel g)"
proof (induction evs arbitrary: g)
  case Nil
  then show ?case by simp
next
  case (Cons ev evs)
  show ?case
  proof (cases "ev = KeyPressed KeyR")
    case True
    with Cons.prems have h: "handleEvent ev g = initLevel g"
      by (simp add: handleEvent_def)
    have "sameGame (eventLoop evs (initLevel g)) (initLevel g)"
      by (intro eventLoop_same) (simp add: initLevel_Playing)
    with h show ?thesis by simp
  next
    case False
    then have s: "sameGame (handleEvent ev g) g" by (intro handleEvent_same) simp
    with Cons.prems have st: "currentState (handleEvent ev g) = GameOver"
      by (simp add: sameGame_def)
    from Cons.prems False have "KeyPressed KeyR \<in> set evs" by auto
    with st have "sameGame (eventLoop evs (handleEvent ev g)) (initLevel (handleEvent ev g))"
      by (rule Cons.IH)
    moreover from s have "sameGame (initLevel (handleEvent ev g)) (initLevel g)"
      by (intro initLevel_same) (simp add: sameGame_def)
    ultimately show ?thesis by (auto intro: sameGame_trans)
  qed
qed

lemma handleEvents_restart:
  assumes "restarts fr g"
  shows "handleEvents fr g
          = (eventLoop (events fr) g)
              \<lparr>player := handleInput (keys fr) (player (initLevel g))\<rparr>"
    and "sameGame (eventLoop (events fr) g) (initLevel g)"
proof -
  from assms show s: "sameGame (eventLoop (events fr) g) (initLevel g)"
    by (intro eventLoop_restart) (simp_all add: restarts_def)
  then have "currentState (eventLoop (events fr) g) = Playing"
    "player (eventLoop (events fr) g) = player (initLevel g)"
    by (simp_all add: sameGame_def initLevel_def)
  then show "handleEvents fr g
          = (eventLoop (events fr) g)
              \<lparr>player := handleInput (keys fr) (player (initLevel g))\<rparr>"
    by (simp add: handleEvents_def Let_def)
qed

lemma handleInput_fresh:
  "\<not> onGround p \<Longrightarrow> sprite (handleInput k p) = sprite p \<and> snd (velocity (handleInput k p)) = snd (velocity p)
   \<and> \<not> onGround (handleInput k p)
   \<and> fst (velocity (handleInput k p)) = (if keyRight k then 200 else if keyLeft k then - 200 else 0)"
  by (simp add: handleInput_def Let_def PLAYER_MOVE_SPEED_def)

text \<open>
  C4.  Whatever the score, lives, player, enemies and coins were: when the game is over
  and the frame brings the key R, the game after the event loop is the one \<open>initLevel\<close>
  builds, whose score is 0, lives 3, player at (100, 400) with zero velocity, platforms,
  coins (none collected) and enemies (at their initial positions) those of the level, and
  state Playing.  Restarting again changes nothing, and the result is the game the
  constructor builds.  \<open>Game::handleEvents\<close> returns that game with the keys of the frame
  applied to the player: score, lives, position, platforms, coins, enemies and state are
  the initial ones, the vertical velocity is 0, and the horizontal velocity is 0 unless an
  arrow key is held.
\<close>

theorem restart_resets:
  assumes "restarts fr g"
  shows "sameGame (eventLoop (events fr) g) (initLevel g)
       \<and> score (initLevel g) = 0
       \<and> lives (initLevel g) = 3
       \<and> getPosition (sprite (player (initLevel g))) = (100, 400)
       \<and> velocity (player (initLevel g)) = (0, 0)
       \<and> platforms (initLevel g) = levelPlatforms
       \<and> coins (initLevel g) = levelCoins
       \<and> filter collected (coins (initLevel g)) = []
       \<and> enemies (initLevel g) = levelEnemies
       \<and> map (\<lambda>e. getPosition (esprite e)) (enemies (initLevel g))
           = [(300, 460), (600, 260), (900, 410)]
       \<and> currentState (initLevel g) = Playing
       \<and> initLevel (initLevel g) = initLevel g
       \<and> (shapeSize (sprite (player g)) = (40, 60) \<longrightarrow> sameGame (initLevel g) Game_new)
       \<and> handleEvents fr g
           = (eventLoop (events fr) g)\<lparr>player := handleInput (keys fr) (player (initLevel g))\<rparr>
       \<and> score (handleEvents fr g) = 0
       \<and> lives (handleEvents fr g) = 3
       \<and> getPosition (sprite (player (handleEvents fr g))) = (100, 400)
       \<and> velocity (player (handleEvents fr g))
           = (if keyRight (keys fr) then 200 else if keyLeft (keys fr) then - 200 else 0, 0)
       \<and> \<not> onGround (player (handleEvents fr g))
       \<and> platforms (handleEvents fr g) = levelPlatforms
       \<and> coins (handleEvents fr g) = levelCoins
       \<and> enemies (handleEvents fr g) = levelEnemies
       \<and> currentState (handleEvents fr g) = Playing"
proof -
  from assms have 1: "sameGame (eventLoop (events fr) g) (initLevel g)"
    by (rule handleEvents_restart)
  have 2: "filter collected levelCoins = []"
    by (simp add: levelCoins_def Coin_new_def)
  have 3: "map (\<lambda>e. getPosition (esprite e)) levelEnemies = [(300, 460), (600, 260), (900, 410)]"
    by (simp add: levelEnemies_def Enemy_new_def getPosition_def)
  have 4: "initLevel (initLevel g) = initLevel g"
    by (simp add: initLevel_def setPosition_def)
  have 5: "shapeSize (sprite (player g)) = (40, 60) \<longrightarrow> sameGame (initLevel g) Game_new"
    by (simp add: sameGame_def Game_new_def initLevel_def Player_new_def setPosition_def)
  from assms have 6: "handleEvents fr g
           = (eventLoop (events fr) g)\<lparr>player := handleInput (keys fr) (player (initLevel g))\<rparr>"
    by (rule handleEvents_restart)
  have air: "\<not> onGround (player (initLevel g))" by (simp add: initLevel_def)
  have 7: "score (handleEvents fr g) = 0 \<and> lives (handleEvents fr g) = 3
       \<and> platforms (handleEvents fr g) = levelPlatforms
       \<and> coins (handleEvents fr g) = levelCoins
       \<and> enemies (handleEvents fr g) = levelEnemies
       \<and> currentState (handleEvents fr g) = Playing"
    using 1 unfolding 6 by (simp add: sameGame_def initLevel_def)
  have 8: "getPosition (sprite (player (handleEvents fr g))) = (100, 400)
       \<and> velocity (player (handleEvents fr g))
           = (if keyRight (keys fr) then 200 else if keyLeft (keys fr) then - 200 else 0, 0)
       \<and> \<not> onGround (player (handleEvents fr g))"
    unfolding 6 using handleInput_fresh[OF air, of "keys fr"]
    by (simp add: prod_eq_iff) (simp add: initLevel_def getPosition_def setPosition_def)
  show ?thesis using 1 2 3 4 5 6 7 8
    by (simp add: initLevel_def getPosition_def setPosition_def)
qed

theorem restart_resets_witness:
  "score gameOverScene = 110
   \<and> collected (coins gameOverScene ! 2)
   \<and> getPosition (esprite (enemies gameOverScene ! 1)) = (- 1000, - 1000)
   \<and> sameGame (eventLoop (events restartFrame) gameOverScene) Game_new
   \<and> sameGame (handleEvents restartFrame gameOverScene) Game_new
   \<and> score (handleEvents heldRight gameOverScene) = 0
   \<and> velocity (player (handleEvents heldRight gameOverScene)) = (200, 0)"
proof -
  have a: "restarts restartFrame gameOverScene" by code_simp
  have a': "restarts heldRight gameOverScene" by code_simp
  have b: "shapeSize (sprite (player gameOverScene)) = (40, 60)" by code_simp
  have c: "score gameOverScene = 110
   \<and> collected (coins gameOverScene ! 2)
   \<and> getPosition (esprite (enemies gameOverScene ! 1)) = (- 1000, - 1000)" by code_simp
  have k: "keyRight (keys heldRight)" by code_simp
  have d: "sameGame (handleEvents restartFrame gameOverScene) Game_new" by code_simp
  from restart_resets[OF a] b
  have "sameGame (eventLoop (events restartFrame) gameOverScene) (initLevel gameOverScene)"
    "sameGame (initLevel gameOverScene) Game_new" by blast+
  then have "sameGame (eventLoop (events restartFrame) gameOverScene) Game_new"
    by (rule sameGame_trans)
  moreover from restart_resets[OF a']
  have "score (handleEvents heldRight gameOverScene) = 0"
    "velocity (player (handleEvents heldRight gameOverScene))
      = (if keyRight (keys heldRight) then 200 else if keyLeft (keys heldRight) then - 200 else 0, 0)"
    by blast+
  ultimately show ?thesis using c d k by simp
qed

section \<open>What the loops keep\<close>

subsection \<open>Player size\<close>

lemma horizontalStep_size: "shapeSize (sprite (horizontalStep pl p)) = shapeSize (sprite p)"
  by (simp add: horizontalStep_def Let_def setPosition_def)

lemma horizontalLoop_size: "shapeSize (sprite (horizontalLoop ps p)) = shapeSize (sprite p)"
  by (induction ps arbitrary: p) (simp_all add: horizontalStep_size)

lemma verticalStep_size: "shapeSize (sprite (verticalStep pl p)) = shapeSize (sprite p)"
  by (simp add: verticalStep_def setPosition_def)

lemma verticalLoop_size: "shapeSize (sprite (verticalLoop ps p)) = shapeSize (sprite p)"
  by (induction ps arbitrary: p) (simp_all add: verticalStep_size)

lemma beforeVertical_size: "shapeSize (sprite (beforeVertical dt ps p)) = shapeSize (sprite p)"
  by (simp add: beforeVertical_def Let_def move_def horizontalLoop_size)

lemma Player_update_size: "shapeSize (sprite (Player_update dt ps p)) = shapeSize (sprite p)"
  by (simp add: Player_update_def clampToWindow_keeps verticalLoop_size beforeVertical_size)

lemma handleInput_sprite: "sprite (handleInput k p) = sprite p"
  by (simp add: handleInput_def Let_def)

subsection \<open>Enemy\<close>

lemma Enemy_update_keep:
  "leftBound (Enemy_update dt e) = leftBound e"
  "rightBound (Enemy_update dt e) = rightBound e"
  "shapeSize (esprite (Enemy_update dt e)) = shapeSize (esprite e)"
  "snd (shapePosition (esprite (Enemy_update dt e))) = snd (shapePosition (esprite e))"
  by (simp_all add: Enemy_update_def Let_def move_def setPosition_def getPosition_def)

lemma Enemy_update_left:
  "fst (shapeSize (esprite e)) \<le> rightBound e - leftBound e \<Longrightarrow>
   leftBound e \<le> fst (shapePosition (esprite (Enemy_update dt e)))"
  by (simp add: Enemy_update_def Let_def move_def setPosition_def getPosition_def getGlobalBounds_def)

lemma enemyStep_enemy_keep:
  "leftBound (fst (enemyStep dt e g)) = leftBound e"
  "rightBound (fst (enemyStep dt e g)) = rightBound e"
  "shapeSize (esprite (fst (enemyStep dt e g))) = shapeSize (esprite e)"
  by (simp_all add: enemyStep_def Let_def setPosition_def Enemy_update_keep)

lemma enemyStep_game_keep:
  "coins (snd (enemyStep dt e g)) = coins g"
  "enemies (snd (enemyStep dt e g)) = enemies g"
  "platforms (snd (enemyStep dt e g)) = platforms g"
  by (simp_all add: enemyStep_def Let_def respawn_def setPosition_def)

lemma enemyStep_off_screen:
  "snd (shapePosition (esprite e)) = - 1000 \<and> shapeSize (esprite e) = sz \<Longrightarrow>
   snd (shapePosition (esprite (fst (enemyStep dt e g)))) = - 1000
   \<and> shapeSize (esprite (fst (enemyStep dt e g))) = sz"
  by (simp add: enemyStep_def Let_def setPosition_def Enemy_update_keep)

lemma enemyLoop_Cons:
  "enemyLoop dt (e # es) g =
    (fst (enemyStep dt e g) # fst (enemyLoop dt es (snd (enemyStep dt e g))),
     snd (enemyLoop dt es (snd (enemyStep dt e g))))"
  by (simp add: case_prod_beta)

lemma enemyLoop_length: "length (fst (enemyLoop dt es g)) = length es"
  by (induction es arbitrary: g) (simp_all only: enemyLoop.simps(1) enemyLoop_Cons fst_conv list.size)

lemma enemyLoop_game_keep:
  "coins (snd (enemyLoop dt es g)) = coins g
   \<and> enemies (snd (enemyLoop dt es g)) = enemies g
   \<and> platforms (snd (enemyLoop dt es g)) = platforms g"
proof (induction es arbitrary: g)
  case Nil
  then show ?case by simp
next
  case (Cons e es)
  show ?case
    unfolding enemyLoop_Cons snd_conv
    using Cons.IH[of "snd (enemyStep dt e g)"] by (simp add: enemyStep_game_keep)
qed

lemma enemyLoop_nth:
  assumes "\<And>e g. P e \<Longrightarrow> P (fst (enemyStep dt e g))"
  shows "i < length es \<Longrightarrow> P (es ! i) \<Longrightarrow> P (fst (enemyLoop dt es g) ! i)"
proof (induction es arbitrary: g i)
  case Nil
  then show ?case by simp
next
  case (Cons e es)
  show ?case
  proof (cases i)
    case 0
    with Cons.prems assms[of e g] show ?thesis
      unfolding enemyLoop_Cons by simp
  next
    case (Suc j)
    with Cons.prems Cons.IH[of j "snd (enemyStep dt e g)"] show ?thesis
      unfolding enemyLoop_Cons by simp
  qed
qed

lemma enemyLoop_all:
  assumes "\<And>e g. P e \<Longrightarrow> P (fst (enemyStep dt e g))"
  shows "\<forall>e \<in> set es. P e \<Longrightarrow> \<forall>e \<in> set (fst (enemyLoop dt es g)). P e"
proof (induction es arbitrary: g)
  case Nil
  then show ?case by simp
next
  case (Cons e es)
  from Cons.prems Cons.IH[of "snd (enemyStep dt e g)"] assms[of e g] show ?case
    unfolding enemyLoop_Cons by simp
qed

lemma farEnemy_step: "farEnemy e \<Longrightarrow> farEnemy (fst (enemyStep dt e g))"
  by (simp add: farEnemy_def enemyStep_enemy_keep)

lemma start_box_clear:
  "shapePosition (sprite p) = (100, 400) \<Longrightarrow> shapeSize (sprite p) = (40, 60) \<Longrightarrow>
   140 \<le> fst (shapePosition s) \<Longrightarrow>
   \<not> checkCollision (getGlobalBounds (sprite p)) (getGlobalBounds s)"
  by (simp add: checkCollision_def findIntersection_def getGlobalBounds_def Let_def)

lemma enemyStep_loopInv:
  assumes "farEnemy e" and "loopInv g"
  shows "loopInv (snd (enemyStep dt e g))"
proof (cases "currentState g = GameOver")
  case True
  with assms(2) have p: "shapePosition (sprite (player g)) = (100, 400)"
    "shapeSize (sprite (player g)) = (40, 60)"
    by (simp_all add: loopInv_def getPosition_def)
  from assms(1) have "140 \<le> fst (shapePosition (esprite (Enemy_update dt e)))"
    using Enemy_update_left[of e dt] by (simp add: farEnemy_def)
  with p have "\<not> checkCollision (getGlobalBounds (sprite (player g)))
                  (getGlobalBounds (esprite (Enemy_update dt e)))"
    by (rule start_box_clear)
  then have "snd (enemyStep dt e g) = g" by (simp add: enemyStep_def Let_def)
  with assms(2) show ?thesis by simp
next
  case False
  with assms(2) have "currentState g = Playing" "1 \<le> lives g"
    "shapeSize (sprite (player g)) = (40, 60)"
    by (auto simp: loopInv_def)
  then show ?thesis
    by (auto simp: enemyStep_def Let_def loopInv_def respawn_def setPosition_def getPosition_def)
qed

lemma enemyLoop_loopInv:
  "\<forall>e \<in> set es. farEnemy e \<Longrightarrow> loopInv g \<Longrightarrow> loopInv (snd (enemyLoop dt es g))"
proof (induction es arbitrary: g)
  case Nil
  then show ?case by simp
next
  case (Cons e es)
  from Cons.prems have "loopInv (snd (enemyStep dt e g))"
    by (intro enemyStep_loopInv) simp_all
  with Cons.prems Cons.IH[of "snd (enemyStep dt e g)"] show ?case
    unfolding enemyLoop_Cons by simp
qed

subsection \<open>Coins\<close>

lemma coinStep_eq:
  "coinStep c g =
    (if \<not> collected c \<and> touches g c then (c\<lparr>collected := True\<rparr>, g\<lparr>score := score g + 10\<rparr>)
     else (c, g))"
  by (simp add: coinStep_def touches_def)

lemma touches_score: "touches (g\<lparr>score := s\<rparr>) c = touches g c"
  by (simp add: touches_def)

lemma coinLoop_eq:
  "coinLoop cs g =
    (map (\<lambda>c. if touches g c then c\<lparr>collected := True\<rparr> else c) cs,
     g\<lparr>score := score g + 10 * int (length (filter (\<lambda>c. \<not> collected c \<and> touches g c) cs))\<rparr>)"
proof (induction cs arbitrary: g)
  case Nil
  then show ?case by simp
next
  case (Cons c cs)
  show ?case
  proof (cases "\<not> collected c \<and> touches g c")
    case True
    then show ?thesis
      by (simp add: coinStep_eq Cons.IH touches_score)
  next
    case False
    then show ?thesis
      by (auto simp add: coinStep_eq Cons.IH)
  qed
qed

subsection \<open>Game update\<close>

lemma beforeCoins_coins: "coins (beforeCoins dt g) = coins g"
  by (simp add: beforeCoins_def Let_def enemyLoop_game_keep)

lemma Game_update_eq:
  "Game_update dt g =
    (if fellToGameOver dt g
     then g\<lparr>player := Player_update dt (platforms g) (player g), lives := lives g - 1,
            currentState := GameOver\<rparr>
     else updateView ((snd (coinLoop (coins g) (beforeCoins dt g)))
                        \<lparr>coins := fst (coinLoop (coins g) (beforeCoins dt g))\<rparr>))"
  by (simp add: Game_update_def afterFallCheck_def fellToGameOver_def beforeCoins_def Let_def
      case_prod_beta enemyLoop_game_keep)

lemma updateView_keep:
  "player (updateView g) = player g" "coins (updateView g) = coins g"
  "enemies (updateView g) = enemies g" "score (updateView g) = score g"
  "lives (updateView g) = lives g" "currentState (updateView g) = currentState g"
  by (simp_all add: updateView_def Let_def)

lemma Game_update_player:
  "\<not> fellToGameOver dt g \<Longrightarrow> player (Game_update dt g) = player (beforeCoins dt g)"
  by (simp add: Game_update_eq updateView_keep coinLoop_eq)

lemma touches_player: "player g = player g' \<Longrightarrow> touches g c = touches g' c"
  by (simp add: touches_def)

lemma Game_update_coins:
  "coins (Game_update dt g) =
    (if fellToGameOver dt g then coins g
     else map (\<lambda>c. if touches (Game_update dt g) c then c\<lparr>collected := True\<rparr> else c) (coins g))"
proof (cases "fellToGameOver dt g")
  case True
  then show ?thesis by (simp add: Game_update_eq)
next
  case False
  then have "touches (Game_update dt g) = touches (beforeCoins dt g)"
    by (intro ext touches_player Game_update_player)
  with False show ?thesis
    by (simp add: Game_update_eq updateView_keep coinLoop_eq)
qed

lemma Game_update_score:
  "\<not> fellToGameOver dt g \<Longrightarrow>
   score (Game_update dt g) =
     score (beforeCoins dt g)
       + 10 * int (length (filter (\<lambda>c. \<not> collected c \<and> touches (Game_update dt g) c) (coins g)))"
proof -
  assume nf: "\<not> fellToGameOver dt g"
  then have "touches (Game_update dt g) = touches (beforeCoins dt g)"
    by (intro ext touches_player Game_update_player)
  with nf show ?thesis
    by (simp add: Game_update_eq updateView_keep coinLoop_eq)
qed

lemma Game_update_enemies:
  "enemies (Game_update dt g) =
    (if fellToGameOver dt g then enemies g else enemies (beforeCoins dt g))"
  by (simp add: Game_update_eq updateView_keep coinLoop_eq)

lemma beforeCoins_enemies:
  "\<exists>g2. enemies (beforeCoins dt g) = fst (enemyLoop dt (enemies g) g2)"
  by (auto simp: beforeCoins_def Let_def)

lemma Game_update_enemy_nth:
  assumes "\<And>e g. P e \<Longrightarrow> P (fst (enemyStep dt e g))"
    and "i < length (enemies g)" and "P (enemies g ! i)"
  shows "i < length (enemies (Game_update dt g)) \<and> P (enemies (Game_update dt g) ! i)"
proof -
  obtain g2 where e: "enemies (beforeCoins dt g) = fst (enemyLoop dt (enemies g) g2)"
    using beforeCoins_enemies by blast
  have "P (fst (enemyLoop dt (enemies g) g2) ! i)"
    using assms(1) assms(2,3) by (rule enemyLoop_nth)
  with assms(2,3) e show ?thesis
    by (simp add: Game_update_enemies enemyLoop_length)
qed

lemma Game_update_coin_nth:
  assumes "i < length (coins g)" and "collected (coins g ! i)"
  shows "i < length (coins (Game_update dt g)) \<and> collected (coins (Game_update dt g) ! i)"
  using assms by (simp add: Game_update_coins)

section \<open>Frames\<close>

subsection \<open>Frames without restart\<close>

lemma handleEvents_keep:
  assumes "\<not> restarts fr g"
  shows "enemies (handleEvents fr g) = enemies g" "coins (handleEvents fr g) = coins g"
    "currentState (handleEvents fr g) = currentState g"
proof -
  from assms have "sameGame (eventLoop (events fr) g) g"
    by (intro eventLoop_same) (simp add: restarts_def)
  then show "enemies (handleEvents fr g) = enemies g" "coins (handleEvents fr g) = coins g"
    "currentState (handleEvents fr g) = currentState g"
    by (simp_all add: handleEvents_def Let_def sameGame_def)
qed

lemma handleEvents_GameOver:
  assumes "currentState g = GameOver" and "KeyPressed KeyR \<notin> set (events fr)"
  shows "sameGame (frameStep fr g) g"
proof -
  from assms have s: "sameGame (eventLoop (events fr) g) g"
    by (intro eventLoop_same) simp
  with assms(1) have "currentState (eventLoop (events fr) g) = GameOver"
    by (simp add: sameGame_def)
  then have "frameStep fr g = eventLoop (events fr) g"
    by (simp add: frameStep_def handleEvents_def Let_def)
  with s show ?thesis by simp
qed

lemma frameStep_enemy_nth:
  assumes "\<And>e g dt. P e \<Longrightarrow> P (fst (enemyStep dt e g))"
    and "\<not> restarts fr g" and "i < length (enemies g)" and "P (enemies g ! i)"
  shows "i < length (enemies (frameStep fr g)) \<and> P (enemies (frameStep fr g) ! i)"
proof (cases "currentState (handleEvents fr g) = Playing")
  case True
  have "i < length (enemies (handleEvents fr g))" "P (enemies (handleEvents fr g) ! i)"
    using assms(2-4) by (simp_all add: handleEvents_keep)
  with assms(1) have "i < length (enemies (Game_update (deltaTime fr) (handleEvents fr g)))
      \<and> P (enemies (Game_update (deltaTime fr) (handleEvents fr g)) ! i)"
    by (intro Game_update_enemy_nth)
  with True show ?thesis by (simp add: frameStep_def Let_def)
next
  case False
  with assms(2-4) show ?thesis by (simp add: frameStep_def Let_def handleEvents_keep)
qed

lemma run_enemy_nth:
  assumes "\<And>e g dt. P e \<Longrightarrow> P (fst (enemyStep dt e g))"
  shows "noRestart frs g \<Longrightarrow> i < length (enemies g) \<Longrightarrow> P (enemies g ! i) \<Longrightarrow>
         i < length (enemies (run frs g)) \<and> P (enemies (run frs g) ! i)"
proof (induction frs arbitrary: g)
  case Nil
  then show ?case by simp
next
  case (Cons fr frs)
  show ?case
  proof (cases "windowOpen g")
    case True
    with Cons.prems have nr: "\<not> restarts fr g" and rest: "noRestart frs (frameStep fr g)"
      by simp_all
    from assms nr Cons.prems(2,3)
    have "i < length (enemies (frameStep fr g)) \<and> P (enemies (frameStep fr g) ! i)"
      by (rule frameStep_enemy_nth)
    with rest True Cons.IH[of "frameStep fr g"] show ?thesis by simp
  next
    case False
    with Cons.prems show ?thesis by simp
  qed
qed

lemma frameStep_coin_nth:
  assumes "\<not> restarts fr g" and "i < length (coins g)" and "collected (coins g ! i)"
  shows "i < length (coins (frameStep fr g)) \<and> collected (coins (frameStep fr g) ! i)"
proof (cases "currentState (handleEvents fr g) = Playing")
  case True
  have "i < length (coins (handleEvents fr g))" "collected (coins (handleEvents fr g) ! i)"
    using assms by (simp_all add: handleEvents_keep)
  then have "i < length (coins (Game_update (deltaTime fr) (handleEvents fr g)))
      \<and> collected (coins (Game_update (deltaTime fr) (handleEvents fr g)) ! i)"
    by (rule Game_update_coin_nth)
  with True show ?thesis by (simp add: frameStep_def Let_def)
next
  case False
  with assms show ?thesis by (simp add: frameStep_def Let_def handleEvents_keep)
qed

lemma run_coin_nth:
  "noRestart frs g \<Longrightarrow> i < length (coins g) \<Longrightarrow> collected (coins g ! i) \<Longrightarrow>
   i < length (coins (run frs g)) \<and> collected (coins (run frs g) ! i)"
proof (induction frs arbitrary: g)
  case Nil
  then show ?case by simp
next
  case (Cons fr frs)
  show ?case
  proof (cases "windowOpen g")
    case True
    with Cons.prems have nr: "\<not> restarts fr g" and rest: "noRestart frs (frameStep fr g)"
      by simp_all
    from nr Cons.prems(2,3)
    have "i < length (coins (frameStep fr g)) \<and> collected (coins (frameStep fr g) ! i)"
      by (rule frameStep_coin_nth)
    with rest True Cons.IH[of "frameStep fr g"] show ?thesis by simp
  next
    case False
    with Cons.prems show ?thesis by simp
  qed
qed

subsection \<open>Well-formed games\<close>

lemma wellFormed_same: "sameGame g' g \<Longrightarrow> wellFormed g \<Longrightarrow> wellFormed g'"
  by (simp add: sameGame_def wellFormed_def)

lemma levelEnemies_far: "\<forall>e \<in> set levelEnemies. farEnemy e"
  by (simp add: levelEnemies_def Enemy_new_def farEnemy_def)

lemma initLevel_wf: "shapeSize (sprite (player g)) = (40, 60) \<Longrightarrow> wellFormed (initLevel g)"
  using levelEnemies_far by (simp add: wellFormed_def initLevel_def setPosition_def)

lemma Game_new_wf: "wellFormed Game_new"
  unfolding Game_new_def by (rule initLevel_wf) (simp add: Player_new_def)

lemma handleEvent_wf: "wellFormed g \<Longrightarrow> wellFormed (handleEvent ev g)"
proof (cases "currentState g = GameOver \<and> ev = KeyPressed KeyR")
  case True
  assume "wellFormed g"
  then have "shapeSize (sprite (player g)) = (40, 60)" by (simp add: wellFormed_def)
  then have "wellFormed (initLevel g)" by (rule initLevel_wf)
  with True show ?thesis by (simp add: handleEvent_def)
next
  case False
  assume "wellFormed g"
  with False show ?thesis by (auto intro: wellFormed_same handleEvent_same)
qed

lemma eventLoop_wf: "wellFormed g \<Longrightarrow> wellFormed (eventLoop evs g)"
  by (induction evs arbitrary: g) (simp_all add: handleEvent_wf)

lemma handleEvents_wf: "wellFormed g \<Longrightarrow> wellFormed (handleEvents fr g)"
  using eventLoop_wf[of g "events fr"]
  by (auto simp: handleEvents_def Let_def wellFormed_def handleInput_sprite)

lemma loopInv_enemies: "loopInv (g\<lparr>enemies := es\<rparr>) = loopInv g"
  by (simp add: loopInv_def)

lemma beforeCoins_inv:
  assumes "wellFormed g" and "currentState g = Playing" and "\<not> fellToGameOver dt g"
  shows "loopInv (beforeCoins dt g)" and "\<forall>e \<in> set (enemies (beforeCoins dt g)). farEnemy e"
proof -
  define g1 where "g1 = g\<lparr>player := Player_update dt (platforms g) (player g)\<rparr>"
  define g2 where "g2 = (if snd (getPosition (sprite (player g1))) > 700
               then g1\<lparr>lives := lives g1 - 1, player := respawn (player g1)\<rparr> else g1)"
  have b: "beforeCoins dt g = (snd (enemyLoop dt (enemies g2) g2))\<lparr>enemies := fst (enemyLoop dt (enemies g2) g2)\<rparr>"
    by (simp add: beforeCoins_def Let_def g1_def g2_def)
  from assms have far: "\<forall>e \<in> set (enemies g2). farEnemy e"
    by (simp add: wellFormed_def g1_def g2_def)
  from assms have "loopInv g2"
    by (auto simp: wellFormed_def loopInv_def g1_def g2_def fellToGameOver_def
        Player_update_size respawn_def setPosition_def)
  with far have "loopInv (snd (enemyLoop dt (enemies g2) g2))" by (rule enemyLoop_loopInv)
  then show "loopInv (beforeCoins dt g)" by (simp add: b loopInv_enemies)
  from far have "\<forall>e \<in> set (fst (enemyLoop dt (enemies g2) g2)). farEnemy e"
    by (intro enemyLoop_all farEnemy_step)
  then show "\<forall>e \<in> set (enemies (beforeCoins dt g)). farEnemy e" by (simp add: b)
qed

lemma Game_update_wf:
  assumes "wellFormed g" and "currentState g = Playing"
  shows "wellFormed (Game_update dt g)"
proof (cases "fellToGameOver dt g")
  case True
  with assms show ?thesis
    by (auto simp: Game_update_eq wellFormed_def fellToGameOver_def Player_update_size)
next
  case False
  with assms have "loopInv (beforeCoins dt g)" "\<forall>e \<in> set (enemies (beforeCoins dt g)). farEnemy e"
    by (simp_all add: beforeCoins_inv)
  with False show ?thesis
    by (auto simp: Game_update_eq updateView_keep coinLoop_eq wellFormed_def loopInv_def)
qed

lemma frameStep_wf: "wellFormed g \<Longrightarrow> wellFormed (frameStep fr g)"
  by (simp add: frameStep_def Let_def handleEvents_wf Game_update_wf)

lemma run_wf: "wellFormed g \<Longrightarrow> wellFormed (run frs g)"
  by (induction frs arbitrary: g) (simp_all add: frameStep_wf)

section \<open>Game state\<close>

text \<open>
  C7.  In every game the frame loop reaches from the constructor: a life is left while the
  game is played, and after each frame the state is GameOver exactly when no life is left,
  so Playing turns into GameOver when, and only when, the lives reach 0.  GameOver turns
  into Playing only in a frame that brings the key R.  A frame without the key R leaves a
  game that is over as it is: state, player, platforms, enemies, coins, score and lives.
\<close>

theorem only_two_transitions:
  assumes "g = run frs Game_new"
  shows "(currentState g = Playing \<longrightarrow> 1 \<le> lives g)
       \<and> (currentState (frameStep fr g) = GameOver \<longleftrightarrow> lives (frameStep fr g) = 0)
       \<and> (currentState g = GameOver \<and> currentState (frameStep fr g) = Playing \<longrightarrow>
            KeyPressed KeyR \<in> set (events fr))
       \<and> (currentState g = GameOver \<and> KeyPressed KeyR \<notin> set (events fr) \<longrightarrow>
            sameGame (frameStep fr g) g)"
proof -
  have wf: "wellFormed g" unfolding assms using Game_new_wf by (rule run_wf)
  then have wf': "wellFormed (frameStep fr g)" by (rule frameStep_wf)
  have 1: "currentState g = Playing \<longrightarrow> 1 \<le> lives g"
    using wf by (auto simp: wellFormed_def)
  have 2: "currentState (frameStep fr g) = GameOver \<longleftrightarrow> lives (frameStep fr g) = 0"
    using wf' by (auto simp: wellFormed_def)
  have 4: "currentState g = GameOver \<and> KeyPressed KeyR \<notin> set (events fr) \<longrightarrow>
            sameGame (frameStep fr g) g"
    by (simp add: handleEvents_GameOver)
  have 3: "currentState g = GameOver \<and> currentState (frameStep fr g) = Playing \<longrightarrow>
            KeyPressed KeyR \<in> set (events fr)"
    using 4 by (auto simp: sameGame_def)
  show ?thesis using 1 2 3 4 by blast
qed

theorem only_two_transitions_witness:
  "currentState (run [longFrame, longFrame] Game_new) = Playing
   \<and> lives (run [longFrame, longFrame] Game_new) = 1
   \<and> currentState (frameStep longFrame (run [longFrame, longFrame] Game_new)) = GameOver
   \<and> lives (frameStep longFrame (run [longFrame, longFrame] Game_new)) = 0
   \<and> currentState (run [longFrame, longFrame, longFrame] Game_new) = GameOver
   \<and> KeyPressed KeyR \<notin> set (events idleFrame)
   \<and> sameGame (frameStep idleFrame (run [longFrame, longFrame, longFrame] Game_new))
        (run [longFrame, longFrame, longFrame] Game_new)
   \<and> currentState (frameStep restartFrame (run [longFrame, longFrame, longFrame] Game_new)) = Playing
   \<and> KeyPressed KeyR \<in> set (events restartFrame)"
proof -
  have a: "currentState (run [longFrame, longFrame] Game_new) = Playing" by code_simp
  have b: "lives (frameStep longFrame (run [longFrame, longFrame] Game_new)) = 0" by code_simp
  have c: "currentState (run [longFrame, longFrame, longFrame] Game_new) = GameOver" by code_simp
  have d: "KeyPressed KeyR \<notin> set (events idleFrame)" by code_simp
  have e: "currentState (frameStep restartFrame (run [longFrame, longFrame, longFrame] Game_new)) = Playing"
    by code_simp
  have f: "lives (run [longFrame, longFrame] Game_new) = 1" by code_simp
  show ?thesis
    using only_two_transitions[OF refl, of "[longFrame, longFrame]" longFrame]
      only_two_transitions[OF refl, of "[longFrame, longFrame, longFrame]" idleFrame]
      only_two_transitions[OF refl, of "[longFrame, longFrame, longFrame]" restartFrame]
      a b c d e f
    by blast
qed

section \<open>Coins\<close>

lemma Game_update_fell:
  "fellToGameOver dt g \<Longrightarrow>
   coins (Game_update dt g) = coins g \<and> score (Game_update dt g) = score g"
  by (simp add: Game_update_eq)

lemma fell_no_touch:
  "fellToGameOver dt g \<Longrightarrow> bottomEdge (csprite c) \<le> 700 \<Longrightarrow> \<not> touches (Game_update dt g) c"
  by (simp add: Game_update_eq touches_def fellToGameOver_def checkCollision_def
      findIntersection_def Let_def getGlobalBounds_def getPosition_def bottomEdge_def)

text \<open>
  C6.  If \<open>Game::update\<close> reaches its coin loop, every coin the player's bounds overlap is
  collected afterwards, every other coin is as before, and the score is the score at the
  start of the loop plus 10 for each coin that was not collected and is overlapped: a coin
  collected before adds nothing.  If the update returns before the loop (the fall on the
  last life), coins and score are as before, and the player, below 700, overlaps no coin
  whose bottom edge is at most 700, as all coins of the level are.  A collected coin stays
  collected through every run of frames without restart.
\<close>

theorem coin_collected_once:
  "(\<not> fellToGameOver dt g \<longrightarrow>
      coins (Game_update dt g)
        = map (\<lambda>c. if touches (Game_update dt g) c then c\<lparr>collected := True\<rparr> else c) (coins g)
      \<and> score (Game_update dt g)
        = score (beforeCoins dt g)
          + 10 * int (length (filter (\<lambda>c. \<not> collected c \<and> touches (Game_update dt g) c) (coins g))))
   \<and> (fellToGameOver dt g \<longrightarrow>
        coins (Game_update dt g) = coins g \<and> score (Game_update dt g) = score g
        \<and> (bottomEdge (csprite c) \<le> 700 \<longrightarrow> \<not> touches (Game_update dt g) c))
   \<and> (noRestart frs g \<and> i < length (coins g) \<and> collected (coins g ! i) \<longrightarrow>
        i < length (coins (run frs g)) \<and> collected (coins (run frs g) ! i))"
  using Game_update_coins[of dt g] Game_update_score[of dt g] run_coin_nth[of frs g i]
    Game_update_fell[of dt g] fell_no_touch[of dt g c]
  by simp

theorem coin_collected_once_witness:
  "\<not> collected (coins stompScene ! 2)
   \<and> touches (Game_update (1 / 10) stompScene) (coins stompScene ! 2)
   \<and> collected (coins (Game_update (1 / 10) stompScene) ! 2)
   \<and> score (beforeCoins (1 / 10) stompScene) = 100
   \<and> score (Game_update (1 / 10) stompScene) = 110
   \<and> collected (coins (run [idleFrame, idleFrame] afterStomp) ! 2)
   \<and> score (run [idleFrame, idleFrame] afterStomp) = score afterStomp
   \<and> fellToGameOver 2 (run [longFrame, longFrame] Game_new)
   \<and> \<not> touches (Game_update 2 (run [longFrame, longFrame] Game_new)) (levelCoins ! 0)"
proof -
  have a: "\<not> fellToGameOver (1 / 10) stompScene" by code_simp
  have b: "noRestart [idleFrame, idleFrame] afterStomp \<and> 2 < length (coins afterStomp)
           \<and> collected (coins afterStomp ! 2)" by code_simp
  have c: "\<not> collected (coins stompScene ! 2)
   \<and> touches (Game_update (1 / 10) stompScene) (coins stompScene ! 2)
   \<and> score (beforeCoins (1 / 10) stompScene) = 100
   \<and> score (Game_update (1 / 10) stompScene) = 110
   \<and> collected (coins (Game_update (1 / 10) stompScene) ! 2)
   \<and> score (run [idleFrame, idleFrame] afterStomp) = score afterStomp" by code_simp
  have d: "fellToGameOver 2 (run [longFrame, longFrame] Game_new)
           \<and> bottomEdge (csprite (levelCoins ! 0)) \<le> 700" by code_simp
  show ?thesis
    using coin_collected_once[of "1 / 10" stompScene _ "[idleFrame, idleFrame]" 2]
      coin_collected_once[of "1 / 10" afterStomp _ "[idleFrame, idleFrame]" 2]
      coin_collected_once[of 2 "run [longFrame, longFrame] Game_new" "levelCoins ! 0"]
      a b c d
    by blast
qed

section \<open>The enemy loop, enemy by enemy\<close>

lemma loopState_Cons:
  "loopState dt (e # es) g (Suc i) = loopState dt es (snd (enemyStep dt e g)) i"
  by (induction i) simp_all

lemma enemyLoop_snd: "snd (enemyLoop dt es g) = loopState dt es g (length es)"
proof (induction es arbitrary: g)
  case Nil
  then show ?case by simp
next
  case (Cons e es)
  show ?case
    unfolding enemyLoop_Cons snd_conv list.size
    using Cons.IH[of "snd (enemyStep dt e g)"] loopState_Cons[of dt e es g "length es"]
    by simp
qed

lemma enemyLoop_fst_nth:
  "i < length es \<Longrightarrow>
   fst (enemyLoop dt es g) ! i = fst (enemyStep dt (es ! i) (loopState dt es g i))"
proof (induction es arbitrary: g i)
  case Nil
  then show ?case by simp
next
  case (Cons e es)
  show ?case
  proof (cases i)
    case 0
    then show ?thesis unfolding enemyLoop_Cons by simp
  next
    case (Suc j)
    with Cons.prems have "j < length es" by simp
    then have "fst (enemyLoop dt es (snd (enemyStep dt e g))) ! j
        = fst (enemyStep dt (es ! j) (loopState dt es (snd (enemyStep dt e g)) j))"
      by (rule Cons.IH)
    with Suc show ?thesis
      unfolding enemyLoop_Cons by (simp add: loopState_Cons del: loopState.simps)
  qed
qed

lemma afterFall_keep:
  "enemies (afterFall dt g) = enemies g" "coins (afterFall dt g) = coins g"
  "score (afterFall dt g) = score g" "platforms (afterFall dt g) = platforms g"
  by (simp_all add: afterFall_def Let_def)

lemma reached_loopState: "reached dt g i = loopState dt (enemies g) (afterFall dt g) i"
  by (induction i) simp_all

lemma beforeCoins_reached:
  "beforeCoins dt g =
    (reached dt g (length (enemies g)))\<lparr>enemies := fst (enemyLoop dt (enemies g) (afterFall dt g))\<rparr>"
proof -
  have "beforeCoins dt g =
      (snd (enemyLoop dt (enemies (afterFall dt g)) (afterFall dt g)))
        \<lparr>enemies := fst (enemyLoop dt (enemies (afterFall dt g)) (afterFall dt g))\<rparr>"
    by (simp add: beforeCoins_def afterFall_def Let_def)
  then show ?thesis
    by (simp add: afterFall_keep enemyLoop_snd reached_loopState)
qed

lemma Game_update_enemy_at:
  assumes "\<not> fellToGameOver dt g" and "i < length (enemies g)"
  shows "enemies (Game_update dt g) ! i = fst (enemyStep dt (enemies g ! i) (reached dt g i))"
  using assms
  by (simp add: Game_update_enemies beforeCoins_reached enemyLoop_fst_nth reached_loopState)

lemma Game_update_reached:
  assumes "\<not> fellToGameOver dt g"
  shows "player (Game_update dt g) = player (reached dt g (length (enemies g)))"
    and "lives (Game_update dt g) = lives (reached dt g (length (enemies g)))"
    and "currentState (Game_update dt g) = currentState (reached dt g (length (enemies g)))"
    and "score (beforeCoins dt g) = score (reached dt g (length (enemies g)))"
    and "length (enemies (Game_update dt g)) = length (enemies g)"
  using assms
  by (simp_all add: Game_update_eq updateView_keep coinLoop_eq beforeCoins_reached enemyLoop_length)

lemma enemyStep_contact:
  "enemyStep dt e g =
    (if meets g (Enemy_update dt e) then
       (if stompTest g (Enemy_update dt e) then
          ((Enemy_update dt e)\<lparr>esprite := setPosition (- 1000, - 1000) (esprite (Enemy_update dt e))\<rparr>,
           g\<lparr>player := (player g)\<lparr>velocity := (fst (velocity (player g)), - 250)\<rparr>,
             score := score g + 100\<rparr>)
        else
          (Enemy_update dt e,
           g\<lparr>lives := lives g - 1, player := respawn (player g),
             currentState := (if lives g - 1 \<le> 0 then GameOver else currentState g)\<rparr>))
     else (Enemy_update dt e, g))"
  by (simp add: enemyStep_def Let_def meets_def stompTest_def bottomEdge_def topEdge_def
      PLAYER_JUMP_VELOCITY_def)

lemma reached_score:
  "score (reached dt g k) = score g + 100 * int (length (filter (stompedAt dt g) [0..<k]))"
proof (induction k)
  case 0
  then show ?case by (simp add: afterFall_keep)
next
  case (Suc k)
  have "score (reached dt g (Suc k)) = score (reached dt g k) + (if stompedAt dt g k then 100 else 0)"
    by (simp add: enemyStep_contact stompedAt_def patrolled_def)
  with Suc show ?case by simp
qed

lemma reached_lives:
  "lives (reached dt g k) = lives (afterFall dt g) - int (length (filter (damagedAt dt g) [0..<k]))"
proof (induction k)
  case 0
  then show ?case by simp
next
  case (Suc k)
  have "lives (reached dt g (Suc k)) = lives (reached dt g k) - (if damagedAt dt g k then 1 else 0)"
    by (simp add: enemyStep_contact damagedAt_def patrolled_def)
  with Suc show ?case by simp
qed

text \<open>
  C2.  In a \<open>Game::update\<close> that reaches its enemy loop, each enemy patrols and is then
  tested against the player as the loop finds it.  If the bounds overlap, the contact is a
  stomp if and only if the player's vertical velocity is above 0 and its bottom edge is
  less than the enemy's top edge plus 20, and a damage otherwise.  A stomp leaves the enemy
  at (-1000, -1000) in the game's list, adds 100 to the score and sets the player's
  vertical velocity to -250; a damage takes a life, respawns the player and ends the game
  when no life is left; without overlap nothing but the patrol step happens.  The update
  ends with the player and the state the loop ends with, the score grown by 100 for each
  stomp and 10 for each coin picked up, and the lives less by one for each damage.
\<close>

theorem stomp_or_damage:
  assumes "\<not> fellToGameOver dt g" and "i < length (enemies g)"
  shows "(stompedAt dt g i \<longrightarrow>
            enemies (Game_update dt g) ! i
              = (patrolled dt g i)\<lparr>esprite := setPosition (- 1000, - 1000) (esprite (patrolled dt g i))\<rparr>
            \<and> reached dt g (Suc i)
              = (reached dt g i)
                  \<lparr>player := (player (reached dt g i))
                     \<lparr>velocity := (fst (velocity (player (reached dt g i))), - 250)\<rparr>,
                   score := score (reached dt g i) + 100\<rparr>)
       \<and> (damagedAt dt g i \<longrightarrow>
            enemies (Game_update dt g) ! i = patrolled dt g i
            \<and> reached dt g (Suc i)
              = (reached dt g i)
                  \<lparr>lives := lives (reached dt g i) - 1,
                   player := respawn (player (reached dt g i)),
                   currentState := (if lives (reached dt g i) - 1 \<le> 0 then GameOver
                                    else currentState (reached dt g i))\<rparr>)
       \<and> (\<not> meets (reached dt g i) (patrolled dt g i) \<longrightarrow>
            enemies (Game_update dt g) ! i = patrolled dt g i
            \<and> reached dt g (Suc i) = reached dt g i)
       \<and> (meets (reached dt g i) (patrolled dt g i) \<longrightarrow>
            (stompedAt dt g i \<longleftrightarrow>
               snd (velocity (player (reached dt g i))) > 0
               \<and> bottomEdge (sprite (player (reached dt g i))) < topEdge (esprite (patrolled dt g i)) + 20)
            \<and> (damagedAt dt g i \<longleftrightarrow> \<not> stompedAt dt g i))
       \<and> player (Game_update dt g) = player (reached dt g (length (enemies g)))
       \<and> currentState (Game_update dt g) = currentState (reached dt g (length (enemies g)))
       \<and> score (Game_update dt g)
           = score g + 100 * int (length (filter (stompedAt dt g) [0..<length (enemies g)]))
             + 10 * int (length (filter (\<lambda>c. \<not> collected c \<and> touches (Game_update dt g) c) (coins g)))
       \<and> lives (Game_update dt g)
           = lives (afterFall dt g) - int (length (filter (damagedAt dt g) [0..<length (enemies g)]))"
proof -
  have e: "enemies (Game_update dt g) ! i = fst (enemyStep dt (enemies g ! i) (reached dt g i))"
    using assms by (rule Game_update_enemy_at)
  have 1: "stompedAt dt g i \<longrightarrow>
            enemies (Game_update dt g) ! i
              = (patrolled dt g i)\<lparr>esprite := setPosition (- 1000, - 1000) (esprite (patrolled dt g i))\<rparr>
            \<and> reached dt g (Suc i)
              = (reached dt g i)
                  \<lparr>player := (player (reached dt g i))
                     \<lparr>velocity := (fst (velocity (player (reached dt g i))), - 250)\<rparr>,
                   score := score (reached dt g i) + 100\<rparr>"
    by (simp add: e enemyStep_contact stompedAt_def patrolled_def)
  have 2: "damagedAt dt g i \<longrightarrow>
            enemies (Game_update dt g) ! i = patrolled dt g i
            \<and> reached dt g (Suc i)
              = (reached dt g i)
                  \<lparr>lives := lives (reached dt g i) - 1,
                   player := respawn (player (reached dt g i)),
                   currentState := (if lives (reached dt g i) - 1 \<le> 0 then GameOver
                                    else currentState (reached dt g i))\<rparr>"
    by (simp add: e enemyStep_contact damagedAt_def patrolled_def)
  have 3: "\<not> meets (reached dt g i) (patrolled dt g i) \<longrightarrow>
            enemies (Game_update dt g) ! i = patrolled dt g i
            \<and> reached dt g (Suc i) = reached dt g i"
    by (simp add: e enemyStep_contact patrolled_def)
  have 4: "meets (reached dt g i) (patrolled dt g i) \<longrightarrow>
            (stompedAt dt g i \<longleftrightarrow>
               snd (velocity (player (reached dt g i))) > 0
               \<and> bottomEdge (sprite (player (reached dt g i))) < topEdge (esprite (patrolled dt g i)) + 20)
            \<and> (damagedAt dt g i \<longleftrightarrow> \<not> stompedAt dt g i)"
    by (simp add: stompedAt_def damagedAt_def stompTest_def)
  have 5: "score (Game_update dt g)
           = score g + 100 * int (length (filter (stompedAt dt g) [0..<length (enemies g)]))
             + 10 * int (length (filter (\<lambda>c. \<not> collected c \<and> touches (Game_update dt g) c) (coins g)))"
    using assms(1) by (simp add: Game_update_score Game_update_reached(4) reached_score)
  have 6: "lives (Game_update dt g)
           = lives (afterFall dt g) - int (length (filter (damagedAt dt g) [0..<length (enemies g)]))"
    using assms(1) by (simp add: Game_update_reached(2) reached_lives)
  show ?thesis
    using 1 2 3 4 5 6 Game_update_reached(1,3)[OF assms(1)] by blast
qed

theorem stomp_or_damage_witness:
  "stompedAt (1 / 10) stompScene 1
   \<and> getPosition (esprite (enemies (Game_update (1 / 10) stompScene) ! 1)) = (- 1000, - 1000)
   \<and> score (reached (1 / 10) stompScene 2) = score (reached (1 / 10) stompScene 1) + 100
   \<and> snd (velocity (player (reached (1 / 10) stompScene 2))) = - 250
   \<and> snd (velocity (player (Game_update (1 / 10) stompScene))) = - 250
   \<and> score (Game_update (1 / 10) stompScene) = 110
   \<and> damagedAt (1 / 10) lastLife 0
   \<and> lives (reached (1 / 10) lastLife 1) = 0
   \<and> lives (Game_update (1 / 10) lastLife) = 0
   \<and> currentState (Game_update (1 / 10) lastLife) = GameOver"
proof -
  have a: "\<not> fellToGameOver (1 / 10) stompScene" by code_simp
  have b: "1 < length (enemies stompScene)" by code_simp
  have c: "stompedAt (1 / 10) stompScene 1" by code_simp
  have a': "\<not> fellToGameOver (1 / 10) lastLife" by code_simp
  have b': "0 < length (enemies lastLife)" by code_simp
  have c': "damagedAt (1 / 10) lastLife 0" by code_simp
  have d: "getPosition (esprite (enemies (Game_update (1 / 10) stompScene) ! 1)) = (- 1000, - 1000)
   \<and> score (reached (1 / 10) stompScene 2) = score (reached (1 / 10) stompScene 1) + 100
   \<and> snd (velocity (player (reached (1 / 10) stompScene 2))) = - 250
   \<and> snd (velocity (player (Game_update (1 / 10) stompScene))) = - 250
   \<and> score (Game_update (1 / 10) stompScene) = 110
   \<and> lives (reached (1 / 10) lastLife 1) = 0
   \<and> lives (Game_update (1 / 10) lastLife) = 0
   \<and> currentState (Game_update (1 / 10) lastLife) = GameOver" by code_simp
  show ?thesis
    using stomp_or_damage[OF a b] stomp_or_damage[OF a' b'] c c' d by blast
qed

section \<open>The player stays below the top of the screen\<close>

lemma horizontalStep_vertical:
  "snd (shapePosition (sprite (horizontalStep pl p))) = snd (shapePosition (sprite p))"
  "snd (velocity (horizontalStep pl p)) = snd (velocity p)"
  by (simp_all add: horizontalStep_def Let_def setPosition_def getPosition_def)

lemma horizontalLoop_vertical:
  "snd (shapePosition (sprite (horizontalLoop ps p))) = snd (shapePosition (sprite p))
   \<and> snd (velocity (horizontalLoop ps p)) = snd (velocity p)"
  by (induction ps arbitrary: p) (simp_all add: horizontalStep_vertical)

lemma beforeVertical_vertical:
  "snd (shapePosition (sprite (beforeVertical dt ps p)))
     = snd (shapePosition (sprite p)) + (snd (velocity p) + 900 * dt) * dt"
  "snd (velocity (beforeVertical dt ps p)) = snd (velocity p) + 900 * dt"
  by (simp_all add: beforeVertical_def Let_def move_def horizontalLoop_vertical GRAVITY_def)

lemma headroom_flight:
  "headroom (beforeVertical dt ps p) = headroom p + 450 * dt\<^sup>2"
  by (simp add: headroom_def getPosition_def beforeVertical_vertical power2_eq_square field_simps)

lemma verticalStep_cases:
  "verticalStep pl p = p \<or> verticalStep pl p = landed pl p \<or> verticalStep pl p = bumped pl p"
  by (simp add: verticalStep_def landed_def bumped_def topEdge_def getGlobalBounds_def)

lemma verticalLoop_cases:
  "verticalLoop ps p = p \<or> (\<exists>pl \<in> set ps. verticalLoop ps p = landed pl p)
   \<or> (\<exists>pl \<in> set ps. verticalLoop ps p = bumped pl p)"
proof (induction ps)
  case Nil
  then show ?case by simp
next
  case (Cons a ps)
  consider "verticalStep a p = p" | "verticalStep a p = landed a p" | "verticalStep a p = bumped a p"
    using verticalStep_cases by blast
  then show ?case
  proof cases
    case 1
    with Cons show ?thesis by auto
  next
    case 2
    then have "verticalLoop (a # ps) p = landed a p"
      by (simp add: verticalLoop_rest landed_def)
    then show ?thesis by simp
  next
    case 3
    then have "verticalLoop (a # ps) p = bumped a p"
      by (simp add: verticalLoop_rest bumped_def)
    then show ?thesis by simp
  qed
qed

lemma levelPlatforms_edges:
  "pl \<in> set levelPlatforms \<Longrightarrow> 300 \<le> topEdge pl \<and> 330 \<le> snd (shapePosition pl) + snd (shapeSize pl)"
  by (auto simp: levelPlatforms_def topEdge_def getGlobalBounds_def)

lemma steady_vertical:
  assumes "shapeSize (sprite q) = (40, 60)" and "100 \<le> headroom q" and "\<not> onGround q"
  shows "steady (verticalLoop levelPlatforms q)"
proof -
  consider "verticalLoop levelPlatforms q = q"
    | pl where "pl \<in> set levelPlatforms" "verticalLoop levelPlatforms q = landed pl q"
    | pl where "pl \<in> set levelPlatforms" "verticalLoop levelPlatforms q = bumped pl q"
    using verticalLoop_cases by blast
  then show ?thesis
  proof cases
    case 1
    with assms show ?thesis by (simp add: steady_def)
  next
    case 2
    with assms levelPlatforms_edges[of pl] show ?thesis
      by (simp add: steady_def landed_def headroom_def getPosition_def setPosition_def)
  next
    case 3
    with assms levelPlatforms_edges[of pl] show ?thesis
      by (simp add: steady_def bumped_def headroom_def getPosition_def setPosition_def
          COLLISION_EPSILON_def)
  qed
qed

lemma clampToWindow_steady: "steady p \<Longrightarrow> steady (clampToWindow p)"
  using clampToWindow_keeps[of p] by (simp add: steady_def headroom_def)

lemma steady_update:
  assumes "steady p"
  shows "steady (Player_update dt levelPlatforms p)"
proof -
  define q where "q = beforeVertical dt levelPlatforms p"
  from assms have h: "100 \<le> headroom p" by (simp add: steady_def)
  have "0 \<le> 450 * dt\<^sup>2" by simp
  with h have "100 \<le> headroom q"
    unfolding q_def headroom_flight by linarith
  moreover from assms have "shapeSize (sprite q) = (40, 60)"
    by (simp add: q_def beforeVertical_size steady_def)
  moreover have "\<not> onGround q" by (simp add: q_def beforeVertical_air)
  ultimately have "steady (verticalLoop levelPlatforms q)" by (simp add: steady_vertical)
  then show ?thesis
    by (simp add: Player_update_def q_def clampToWindow_steady)
qed

lemma steady_input: "steady p \<Longrightarrow> steady (handleInput k p)"
  by (auto simp: steady_def handleInput_def Let_def headroom_def PLAYER_JUMP_VELOCITY_def
      PLAYER_MOVE_SPEED_def power2_eq_square)

lemma steady_respawn: "steady p \<Longrightarrow> steady (respawn p)"
  by (simp add: steady_def respawn_def headroom_def getPosition_def setPosition_def)

lemma steady_above: "steady p \<Longrightarrow> 100 \<le> snd (shapePosition (sprite p))"
proof -
  assume "steady p"
  then have "100 \<le> snd (shapePosition (sprite p)) - (snd (velocity p))\<^sup>2 / 1800"
    by (simp add: steady_def headroom_def getPosition_def)
  moreover have "0 \<le> (snd (velocity p))\<^sup>2 / 1800" by simp
  ultimately show ?thesis by linarith
qed

section \<open>Enemies in their intervals\<close>

lemma Enemy_update_right:
  "fst (shapeSize (esprite e)) \<le> rightBound e - leftBound e \<Longrightarrow>
   fst (shapePosition (esprite (Enemy_update dt e))) \<le> rightBound e - fst (shapeSize (esprite e))"
  by (simp add: Enemy_update_def Let_def move_def setPosition_def getPosition_def getGlobalBounds_def)

lemma stationed_update: "stationed e \<Longrightarrow> stationed (Enemy_update dt e)"
  using Enemy_update_left[of e dt] Enemy_update_right[of e dt]
  by (auto simp: stationed_def farEnemy_def Enemy_update_keep getPosition_def)

lemma stationed_step: "stationed e \<Longrightarrow> stationed (fst (enemyStep dt e g))"
  using stationed_update[of e dt]
  by (auto simp: enemyStep_contact stationed_def farEnemy_def getPosition_def setPosition_def)

lemma off_screen_clear:
  "steady (player g) \<Longrightarrow> shapeSize (esprite e) = (40, 40) \<Longrightarrow>
   snd (getPosition (esprite e)) = - 1000 \<Longrightarrow> \<not> meets g e"
  using steady_above[of "player g"]
  by (simp add: meets_def checkCollision_def findIntersection_def Let_def getGlobalBounds_def
      getPosition_def)

lemma steady_step:
  assumes "steady (player g)" and "stationed e"
  shows "steady (player (snd (enemyStep dt e g)))"
proof (cases "meets g (Enemy_update dt e)")
  case False
  with assms show ?thesis by (simp add: enemyStep_contact)
next
  case True
  have st: "stationed (Enemy_update dt e)" using assms(2) by (rule stationed_update)
  show ?thesis
  proof (cases "stompTest g (Enemy_update dt e)")
    case False
    with True assms show ?thesis by (simp add: enemyStep_contact steady_respawn)
  next
    case stomp: True
    from True st assms(1) have "snd (getPosition (esprite (Enemy_update dt e))) \<noteq> - 1000"
      using off_screen_clear[of g "Enemy_update dt e"] by (auto simp: stationed_def)
    with st have "260 \<le> snd (shapePosition (esprite (Enemy_update dt e)))"
      by (auto simp: stationed_def getPosition_def)
    with True assms(1) have "200 < snd (shapePosition (sprite (player g)))"
      by (auto simp: meets_def checkCollision_def findIntersection_def Let_def getGlobalBounds_def
          steady_def split: if_splits)
    moreover from stomp assms(1) have "\<not> onGround (player g)"
      by (auto simp: stompTest_def steady_def)
    ultimately show ?thesis
      using True stomp assms(1)
      by (simp add: enemyStep_contact steady_def headroom_def getPosition_def power2_eq_square)
  qed
qed

lemma loopState_steady:
  "steady (player g) \<Longrightarrow> \<forall>e \<in> set es. stationed e \<Longrightarrow> i \<le> length es \<Longrightarrow>
   steady (player (loopState dt es g i))"
proof (induction i)
  case 0
  then show ?case by simp
next
  case (Suc i)
  then have "steady (player (loopState dt es g i))" "stationed (es ! i)" by simp_all
  then show ?case by (simp add: steady_step)
qed

section \<open>What every frame keeps\<close>

lemma sound_same: "sameGame g' g \<Longrightarrow> sound g \<Longrightarrow> sound g'"
  by (simp add: sameGame_def sound_def wellFormed_def)

lemma levelEnemies_stationed: "\<forall>e \<in> set levelEnemies. stationed e"
  by (simp add: levelEnemies_def Enemy_new_def stationed_def farEnemy_def getPosition_def)

lemma initLevel_sound: "shapeSize (sprite (player g)) = (40, 60) \<Longrightarrow> sound (initLevel g)"
  using levelEnemies_stationed initLevel_wf[of g]
  by (simp add: sound_def initLevel_def steady_def headroom_def getPosition_def setPosition_def)

lemma Game_new_sound: "sound Game_new"
  unfolding Game_new_def by (rule initLevel_sound) (simp add: Player_new_def)

lemma handleEvent_sound: "sound g \<Longrightarrow> sound (handleEvent ev g)"
proof (cases "currentState g = GameOver \<and> ev = KeyPressed KeyR")
  case True
  assume "sound g"
  then have "shapeSize (sprite (player g)) = (40, 60)" by (simp add: sound_def steady_def)
  then have "sound (initLevel g)" by (rule initLevel_sound)
  with True show ?thesis by (simp add: handleEvent_def)
next
  case False
  assume "sound g"
  with False show ?thesis by (auto intro: sound_same handleEvent_same)
qed

lemma eventLoop_sound: "sound g \<Longrightarrow> sound (eventLoop evs g)"
  by (induction evs arbitrary: g) (simp_all add: handleEvent_sound)

lemma handleEvents_sound: "sound g \<Longrightarrow> sound (handleEvents fr g)"
proof -
  assume s: "sound g"
  then have e: "sound (eventLoop (events fr) g)" by (rule eventLoop_sound)
  have w: "wellFormed (handleEvents fr g)"
    using s by (simp add: sound_def handleEvents_wf)
  from e have "steady (handleInput (keys fr) (player (eventLoop (events fr) g)))"
    by (simp add: sound_def steady_input)
  with e w show ?thesis
    by (auto simp: sound_def handleEvents_def Let_def)
qed

lemma afterFall_steady:
  "steady (player g) \<Longrightarrow> platforms g = levelPlatforms \<Longrightarrow> steady (player (afterFall dt g))"
  using steady_update[of "player g" dt]
  by (simp add: afterFall_def Let_def steady_respawn)

lemma reached_steady:
  assumes "sound g" and "i \<le> length (enemies g)"
  shows "steady (player (reached dt g i))"
proof -
  from assms(1) have "steady (player (afterFall dt g))"
    by (simp add: sound_def afterFall_steady)
  moreover from assms(1) have "\<forall>e \<in> set (enemies g). stationed e" by (simp add: sound_def)
  ultimately show ?thesis
    using assms(2) by (simp add: reached_loopState loopState_steady)
qed

lemma Game_update_platforms: "platforms (Game_update dt g) = platforms g"
  by (simp add: Game_update_eq updateView_def Let_def coinLoop_eq beforeCoins_def enemyLoop_game_keep)

lemma Game_update_sound:
  assumes "sound g" and "currentState g = Playing"
  shows "sound (Game_update dt g)"
proof -
  have w: "wellFormed (Game_update dt g)"
    using assms by (simp add: sound_def Game_update_wf)
  have p: "platforms (Game_update dt g) = levelPlatforms"
    using assms(1) by (simp add: Game_update_platforms sound_def)
  have st: "\<forall>e \<in> set (enemies g). stationed e" using assms(1) by (simp add: sound_def)
  show ?thesis
  proof (cases "fellToGameOver dt g")
    case True
    from assms(1) have "steady (Player_update dt levelPlatforms (player g))"
      by (simp add: sound_def steady_update)
    with True w p st assms(1) show ?thesis
      by (simp add: sound_def Game_update_eq)
  next
    case False
    then have "player (Game_update dt g) = player (reached dt g (length (enemies g)))"
      by (rule Game_update_reached)
    with assms(1) have s: "steady (player (Game_update dt g))"
      by (simp add: reached_steady)
    obtain g2 where "enemies (beforeCoins dt g) = fst (enemyLoop dt (enemies g) g2)"
      using beforeCoins_enemies by blast
    moreover from st have "\<forall>e \<in> set (fst (enemyLoop dt (enemies g) g2)). stationed e"
      by (intro enemyLoop_all stationed_step)
    ultimately have "\<forall>e \<in> set (enemies (Game_update dt g)). stationed e"
      using False by (simp add: Game_update_enemies)
    with w p s show ?thesis by (simp add: sound_def)
  qed
qed

lemma frameStep_sound: "sound g \<Longrightarrow> sound (frameStep fr g)"
  by (simp add: frameStep_def Let_def handleEvents_sound Game_update_sound)

lemma run_sound: "sound g \<Longrightarrow> sound (run frs g)"
  by (induction frs arbitrary: g) (simp_all add: frameStep_sound)

lemma sound_enemy: "sound g \<Longrightarrow> i < length (enemies g) \<Longrightarrow> stationed (enemies g ! i)"
  by (simp add: sound_def)

section \<open>Enemy patrol\<close>

lemma Enemy_update_turn:
  "(fst (getPosition (esprite e)) + fst (evelocity e) * dt \<le> leftBound e \<longrightarrow>
      fst (getPosition (esprite (Enemy_update dt e))) = leftBound e
      \<and> fst (evelocity (Enemy_update dt e)) = - fst (evelocity e))
   \<and> (leftBound e < fst (getPosition (esprite e)) + fst (evelocity e) * dt
      \<and> rightBound e \<le> fst (getPosition (esprite e)) + fst (evelocity e) * dt
                         + fst (shapeSize (esprite e)) \<longrightarrow>
      fst (getPosition (esprite (Enemy_update dt e))) = rightBound e - fst (shapeSize (esprite e))
      \<and> fst (evelocity (Enemy_update dt e)) = - fst (evelocity e))
   \<and> (leftBound e < fst (getPosition (esprite e)) + fst (evelocity e) * dt
      \<and> fst (getPosition (esprite e)) + fst (evelocity e) * dt
          + fst (shapeSize (esprite e)) < rightBound e \<longrightarrow>
      fst (getPosition (esprite (Enemy_update dt e)))
        = fst (getPosition (esprite e)) + fst (evelocity e) * dt
      \<and> fst (evelocity (Enemy_update dt e)) = fst (evelocity e))"
  by (simp add: Enemy_update_def Let_def move_def setPosition_def getPosition_def getGlobalBounds_def)

lemma enemyStep_velocity: "evelocity (fst (enemyStep dt e g)) = evelocity (Enemy_update dt e)"
  by (simp add: enemyStep_contact)

lemma enemyStep_position:
  "fst (enemyStep dt e g) = Enemy_update dt e
   \<or> getPosition (esprite (fst (enemyStep dt e g))) = (- 1000, - 1000)"
  by (simp add: enemyStep_contact getPosition_def setPosition_def)

text \<open>
  C3, as amended.  In every game the frame loop reaches from the constructor, every enemy
  is within [leftBound, rightBound - width], or it has been stomped and is at
  (-1000, -1000), where it stays until its next update.  Every \<open>Enemy::update\<close> leaves it
  within the interval and keeps the bounds and the size.  The velocity is negated exactly
  when the moved position has x \<le> leftBound or x + width \<ge> rightBound, and x is then set
  to leftBound, respectively to rightBound - width; otherwise the enemy keeps the moved
  position and its velocity.  A \<open>Game::update\<close> that reaches its enemy loop leaves the enemy
  with the velocity of that update, and with its position unless it stomps the enemy.
\<close>

theorem patrol_within_bounds:
  assumes "g = run frs Game_new" and "i < length (enemies g)"
  shows "(getPosition (esprite (enemies g ! i)) = (- 1000, - 1000)
          \<or> leftBound (enemies g ! i) \<le> fst (getPosition (esprite (enemies g ! i)))
            \<and> fst (getPosition (esprite (enemies g ! i)))
                \<le> rightBound (enemies g ! i) - fst (shapeSize (esprite (enemies g ! i))))
       \<and> leftBound (enemies g ! i) \<le> fst (getPosition (esprite (Enemy_update dt (enemies g ! i))))
       \<and> fst (getPosition (esprite (Enemy_update dt (enemies g ! i))))
           \<le> rightBound (enemies g ! i) - fst (shapeSize (esprite (enemies g ! i)))
       \<and> leftBound (Enemy_update dt (enemies g ! i)) = leftBound (enemies g ! i)
       \<and> rightBound (Enemy_update dt (enemies g ! i)) = rightBound (enemies g ! i)
       \<and> shapeSize (esprite (Enemy_update dt (enemies g ! i))) = shapeSize (esprite (enemies g ! i))
       \<and> (fst (getPosition (esprite (enemies g ! i))) + fst (evelocity (enemies g ! i)) * dt
            \<le> leftBound (enemies g ! i) \<longrightarrow>
            fst (getPosition (esprite (Enemy_update dt (enemies g ! i)))) = leftBound (enemies g ! i)
            \<and> fst (evelocity (Enemy_update dt (enemies g ! i))) = - fst (evelocity (enemies g ! i)))
       \<and> (leftBound (enemies g ! i)
            < fst (getPosition (esprite (enemies g ! i))) + fst (evelocity (enemies g ! i)) * dt
          \<and> rightBound (enemies g ! i)
              \<le> fst (getPosition (esprite (enemies g ! i))) + fst (evelocity (enemies g ! i)) * dt
                  + fst (shapeSize (esprite (enemies g ! i))) \<longrightarrow>
            fst (getPosition (esprite (Enemy_update dt (enemies g ! i))))
              = rightBound (enemies g ! i) - fst (shapeSize (esprite (enemies g ! i)))
            \<and> fst (evelocity (Enemy_update dt (enemies g ! i))) = - fst (evelocity (enemies g ! i)))
       \<and> (leftBound (enemies g ! i)
            < fst (getPosition (esprite (enemies g ! i))) + fst (evelocity (enemies g ! i)) * dt
          \<and> fst (getPosition (esprite (enemies g ! i))) + fst (evelocity (enemies g ! i)) * dt
              + fst (shapeSize (esprite (enemies g ! i))) < rightBound (enemies g ! i) \<longrightarrow>
            fst (getPosition (esprite (Enemy_update dt (enemies g ! i))))
              = fst (getPosition (esprite (enemies g ! i))) + fst (evelocity (enemies g ! i)) * dt
            \<and> fst (evelocity (Enemy_update dt (enemies g ! i))) = fst (evelocity (enemies g ! i)))
       \<and> (\<not> fellToGameOver dt g \<longrightarrow>
            evelocity (enemies (Game_update dt g) ! i) = evelocity (Enemy_update dt (enemies g ! i))
            \<and> (enemies (Game_update dt g) ! i = Enemy_update dt (enemies g ! i)
               \<or> getPosition (esprite (enemies (Game_update dt g) ! i)) = (- 1000, - 1000)))
       \<and> (fellToGameOver dt g \<longrightarrow> enemies (Game_update dt g) = enemies g)"
proof -
  have "sound g" unfolding assms(1) using Game_new_sound by (rule run_sound)
  then have st: "stationed (enemies g ! i)" using assms(2) by (rule sound_enemy)
  then have w: "fst (shapeSize (esprite (enemies g ! i)))
                 \<le> rightBound (enemies g ! i) - leftBound (enemies g ! i)"
    unfolding stationed_def farEnemy_def by blast
  have 1: "getPosition (esprite (enemies g ! i)) = (- 1000, - 1000)
          \<or> leftBound (enemies g ! i) \<le> fst (getPosition (esprite (enemies g ! i)))
            \<and> fst (getPosition (esprite (enemies g ! i)))
                \<le> rightBound (enemies g ! i) - fst (shapeSize (esprite (enemies g ! i)))"
    using st unfolding stationed_def by blast
  have 2: "leftBound (enemies g ! i) \<le> fst (getPosition (esprite (Enemy_update dt (enemies g ! i))))
       \<and> fst (getPosition (esprite (Enemy_update dt (enemies g ! i))))
           \<le> rightBound (enemies g ! i) - fst (shapeSize (esprite (enemies g ! i)))"
    using Enemy_update_left[OF w, of dt] Enemy_update_right[OF w, of dt]
    by (simp add: getPosition_def)
  have 3: "\<not> fellToGameOver dt g \<longrightarrow>
            evelocity (enemies (Game_update dt g) ! i) = evelocity (Enemy_update dt (enemies g ! i))
            \<and> (enemies (Game_update dt g) ! i = Enemy_update dt (enemies g ! i)
               \<or> getPosition (esprite (enemies (Game_update dt g) ! i)) = (- 1000, - 1000))"
    using assms(2) enemyStep_position[of dt "enemies g ! i" "reached dt g i"]
    by (auto simp: Game_update_enemy_at enemyStep_velocity)
  have 4: "fellToGameOver dt g \<longrightarrow> enemies (Game_update dt g) = enemies g"
    by (simp add: Game_update_enemies)
  show ?thesis
    using 1 2 3 4 Enemy_update_turn[of "enemies g ! i" dt]
    by (simp add: Enemy_update_keep)
qed

theorem patrol_within_bounds_witness:
  "leftBound (enemies (run [idleFrame] Game_new) ! 0)
     \<le> fst (getPosition (esprite (enemies (run [idleFrame] Game_new) ! 0)))
   \<and> fst (getPosition (esprite (enemies (run [idleFrame] Game_new) ! 0))) = 308
   \<and> fst (getPosition (esprite (Enemy_update 2 (enemies (run [idleFrame] Game_new) ! 0)))) = 410
   \<and> fst (evelocity (Enemy_update 2 (enemies (run [idleFrame] Game_new) ! 0))) = - 80
   \<and> fst (getPosition (esprite (enemies (Game_update 2 (run [idleFrame] Game_new)) ! 0))) = 410"
proof -
  have a: "0 < length (enemies (run [idleFrame] Game_new))" by code_simp
  have b: "getPosition (esprite (enemies (run [idleFrame] Game_new) ! 0)) \<noteq> (- 1000, - 1000)
    \<and> fst (getPosition (esprite (enemies (run [idleFrame] Game_new) ! 0))) = 308
    \<and> leftBound (enemies (run [idleFrame] Game_new) ! 0)
        < fst (getPosition (esprite (enemies (run [idleFrame] Game_new) ! 0)))
          + fst (evelocity (enemies (run [idleFrame] Game_new) ! 0)) * 2
    \<and> rightBound (enemies (run [idleFrame] Game_new) ! 0)
        \<le> fst (getPosition (esprite (enemies (run [idleFrame] Game_new) ! 0)))
          + fst (evelocity (enemies (run [idleFrame] Game_new) ! 0)) * 2
          + fst (shapeSize (esprite (enemies (run [idleFrame] Game_new) ! 0)))
    \<and> rightBound (enemies (run [idleFrame] Game_new) ! 0)
        - fst (shapeSize (esprite (enemies (run [idleFrame] Game_new) ! 0))) = 410
    \<and> fst (evelocity (enemies (run [idleFrame] Game_new) ! 0)) = 80
    \<and> \<not> fellToGameOver 2 (run [idleFrame] Game_new)
    \<and> fst (getPosition (esprite (enemies (Game_update 2 (run [idleFrame] Game_new)) ! 0))) = 410"
    by code_simp
  show ?thesis
    using patrol_within_bounds[OF refl a, of 2] b by simp
qed

text \<open>
  C3 as stated fails at the times after a stomp: the second enemy of the level, built with
  bounds 550 and 700, is at x = -1000 when the frame that stomps it ends.
\<close>

theorem stomped_enemy_leaves_bounds_counterexample:
  "enemies stompScene ! 1 = Enemy_new 600 260 550 700
   \<and> fst (getPosition (esprite (enemies (frameStep idleFrame stompScene) ! 1)))
       < leftBound (enemies (frameStep idleFrame stompScene) ! 1)"
  by code_simp

section \<open>Stomped enemies\<close>

text \<open>
  C9, as amended.  A stomp puts the enemy at (-1000, -1000).  In every game the frame loop
  reaches from the constructor, an enemy at height -1000 does not overlap the player; in
  the next \<open>Game::update\<close> the enemy loop patrols it and leaves the game as it finds it; and
  through every run of frames without restart it stays in the list of enemies at height
  -1000, never overlapping the player, its shape still among those submitted for drawing.
\<close>

theorem stomped_enemy_stays_off_screen:
  assumes "g = run frs Game_new" and "i < length (enemies g)"
    and "snd (getPosition (esprite (enemies g ! i))) = - 1000"
    and "noRestart later g"
  shows "\<not> meets g (enemies g ! i)
       \<and> (\<not> fellToGameOver dt g \<longrightarrow>
            \<not> meets (reached dt g i) (patrolled dt g i)
            \<and> reached dt g (Suc i) = reached dt g i
            \<and> enemies (Game_update dt g) ! i = Enemy_update dt (enemies g ! i))
       \<and> i < length (enemies (run later g))
       \<and> snd (getPosition (esprite (enemies (run later g) ! i))) = - 1000
       \<and> \<not> meets (run later g) (enemies (run later g) ! i)
       \<and> esprite (enemies (run later g) ! i) \<in> set (render (run later g))
       \<and> (meets g0 (Enemy_update dt e) \<and> stompTest g0 (Enemy_update dt e) \<longrightarrow>
            getPosition (esprite (fst (enemyStep dt e g0))) = (- 1000, - 1000))"
proof -
  have s: "sound g" unfolding assms(1) using Game_new_sound by (rule run_sound)
  then have st: "stationed (enemies g ! i)" using assms(2) by (rule sound_enemy)
  from s have pl: "steady (player g)" by (simp add: sound_def)
  have 1: "\<not> meets g (enemies g ! i)"
    using pl st assms(3) by (intro off_screen_clear) (simp_all add: stationed_def)
  have up: "stationed (patrolled dt g i)" "snd (getPosition (esprite (patrolled dt g i))) = - 1000"
    using st assms(3) by (simp_all add: patrolled_def stationed_update Enemy_update_keep getPosition_def)
  have "steady (player (reached dt g i))"
    using s assms(2) by (intro reached_steady) simp_all
  with up have nm: "\<not> meets (reached dt g i) (patrolled dt g i)"
    by (intro off_screen_clear) (simp_all add: stationed_def)
  then have 2: "\<not> fellToGameOver dt g \<longrightarrow>
            \<not> meets (reached dt g i) (patrolled dt g i)
            \<and> reached dt g (Suc i) = reached dt g i
            \<and> enemies (Game_update dt g) ! i = Enemy_update dt (enemies g ! i)"
    using assms(2) by (simp add: Game_update_enemy_at enemyStep_contact patrolled_def)
  have step: "\<And>e g dt. snd (shapePosition (esprite e)) = - 1000 \<and> shapeSize (esprite e) = (40, 40) \<Longrightarrow>
     snd (shapePosition (esprite (fst (enemyStep dt e g)))) = - 1000
     \<and> shapeSize (esprite (fst (enemyStep dt e g))) = (40, 40)"
    by (rule enemyStep_off_screen)
  from st assms(3) have "snd (shapePosition (esprite (enemies g ! i))) = - 1000
      \<and> shapeSize (esprite (enemies g ! i)) = (40, 40)"
    by (simp add: getPosition_def stationed_def)
  with step assms(4,2)
  have r: "i < length (enemies (run later g))
      \<and> (snd (shapePosition (esprite (enemies (run later g) ! i))) = - 1000
         \<and> shapeSize (esprite (enemies (run later g) ! i)) = (40, 40))"
    by (rule run_enemy_nth)
  from s have "sound (run later g)" by (rule run_sound)
  then have "steady (player (run later g))" by (simp add: sound_def)
  with r have 3: "\<not> meets (run later g) (enemies (run later g) ! i)"
    by (intro off_screen_clear) (simp_all add: getPosition_def)
  from r have dr: "esprite (enemies (run later g) ! i) \<in> set (render (run later g))"
    by (simp add: render_def)
  have 4: "meets g0 (Enemy_update dt e) \<and> stompTest g0 (Enemy_update dt e) \<longrightarrow>
            getPosition (esprite (fst (enemyStep dt e g0))) = (- 1000, - 1000)"
    by (simp add: enemyStep_contact getPosition_def setPosition_def)
  show ?thesis using 1 2 r 3 dr 4 by (simp add: getPosition_def)
qed

lemma stompRun_reaches: "run stompRun Game_new = stompedGame"
  by code_simp

theorem stomped_enemy_stays_off_screen_witness:
  "getPosition (esprite (enemies (run stompRun Game_new) ! 1)) = (- 1000, - 1000)
   \<and> \<not> meets (run stompRun Game_new) (enemies (run stompRun Game_new) ! 1)
   \<and> snd (getPosition (esprite (enemies (run [idleFrame, idleFrame] (run stompRun Game_new)) ! 1)))
       = - 1000
   \<and> \<not> meets (run [idleFrame, idleFrame] (run stompRun Game_new))
        (enemies (run [idleFrame, idleFrame] (run stompRun Game_new)) ! 1)
   \<and> enemies (Game_update (1 / 10) (run stompRun Game_new)) ! 1
       = Enemy_update (1 / 10) (enemies (run stompRun Game_new) ! 1)"
proof -
  have a: "1 < length (enemies (run stompRun Game_new))"
    unfolding stompRun_reaches by code_simp
  have b: "snd (getPosition (esprite (enemies (run stompRun Game_new) ! 1))) = - 1000"
    unfolding stompRun_reaches by code_simp
  have c: "noRestart [idleFrame, idleFrame] (run stompRun Game_new)"
    unfolding stompRun_reaches by code_simp
  have d: "getPosition (esprite (enemies (run stompRun Game_new) ! 1)) = (- 1000, - 1000)
           \<and> \<not> fellToGameOver (1 / 10) (run stompRun Game_new)"
    unfolding stompRun_reaches by code_simp
  show ?thesis
    using stomped_enemy_stays_off_screen[OF refl a b c, of "1 / 10"] d by simp
qed

text \<open>
  C9 as stated fails: the stomped enemy is still updated and still drawn.  The player
  stomps the second enemy (and picks up a coin) in one frame; a frame later
  \<open>Enemy::update\<close> has moved the enemy from (-1000, -1000) to its left bound and reversed
  its velocity, and its shape is among those submitted for drawing.
\<close>

theorem stomped_enemy_still_updated_counterexample:
  "meets stompContact (Enemy_update (1 / 10) (enemies stompContact ! 1))
   \<and> stompTest stompContact (Enemy_update (1 / 10) (enemies stompContact ! 1))
   \<and> score (frameStep idleFrame stompScene) = score stompScene + 100 + 10
   \<and> getPosition (esprite (enemies (frameStep idleFrame stompScene) ! 1)) = (- 1000, - 1000)
   \<and> evelocity (enemies (frameStep idleFrame stompScene) ! 1) = (80, 0)
   \<and> getPosition (esprite (enemies (frameStep idleFrame (frameStep idleFrame stompScene)) ! 1))
       = (550, - 1000)
   \<and> evelocity (enemies (frameStep idleFrame (frameStep idleFrame stompScene)) ! 1) = (- 80, 0)
   \<and> esprite (enemies (frameStep idleFrame (frameStep idleFrame stompScene)) ! 1)
       \<in> set (render (frameStep idleFrame (frameStep idleFrame stompScene)))"
  by code_simp

end
